theory Spec2Isabelle
  imports Main "HOL-Library.Sublist"
begin

section \<open>Values, errors and the configuration mapping\<close>

text \<open>
  The module \<^verbatim>\<open>_sysconfigdata__win32_.py\<close> holds one dict literal, \<^verbatim>\<open>build_time_vars\<close>,
  whose values are Python strings and integers, a list \<^verbatim>\<open>keys_to_replace\<close>, and a loop that
  rewrites the listed entries in place.  A Python value of the table is a string or an int.
\<close>

datatype pyval = StrV string | IntV int

text \<open>
  The exceptions the module's statements can raise: a missing key on \<^verbatim>\<open>d[k]\<close>, slicing an
  int (\<^verbatim>\<open>TypeError\<close>), and calling \<^verbatim>\<open>.replace\<close> on an int (\<^verbatim>\<open>AttributeError\<close>).
\<close>

datatype error = KeyError string | TypeError | AttributeError

type_synonym dict = "string \<rightharpoonup> pyval"

text \<open>The backslash character, which a string literal cannot hold directly.\<close>

abbreviation bslash :: char where
  "bslash \<equiv> CHR 0x5C"

text \<open>The quote character, for the places where a string literal cannot hold it.\<close>

abbreviation squote :: char where
  "squote \<equiv> CHR 0x27"

text \<open>Subscription \<^verbatim>\<open>d[k]\<close> of a dict.\<close>

definition getitem :: "dict \<Rightarrow> string \<Rightarrow> error + pyval" where
  "getitem d k = (case d k of None \<Rightarrow> Inl (KeyError k) | Some v \<Rightarrow> Inr v)"

text \<open>
  The slice \<^verbatim>\<open>v[:-4]\<close>: all but the last four characters of a string (the empty string when
  it has four characters or fewer); an int is not subscriptable.
\<close>

definition slice_to_minus4 :: "pyval \<Rightarrow> error + string" where
  "slice_to_minus4 v = (case v of StrV s \<Rightarrow> Inr (take (length s - 4) s) | IntV n \<Rightarrow> Inl TypeError)"

section \<open>String replacement\<close>

text \<open>
  \<^verbatim>\<open>str.replace(old, new)\<close> with a non-empty \<^verbatim>\<open>old\<close>: scan from the left; where \<^verbatim>\<open>old\<close>
  starts, emit \<^verbatim>\<open>new\<close> and continue after the match, otherwise copy one character.
\<close>

function replace_from :: "'a list \<Rightarrow> 'a list \<Rightarrow> 'a list \<Rightarrow> 'a list" where
  "replace_from old new [] = []"
| "replace_from old new (c # cs) =
     (if old \<noteq> [] \<and> prefix old (c # cs)
      then new @ replace_from old new (drop (length old) (c # cs))
      else c # replace_from old new cs)"
  by pat_completeness auto
termination
  by (relation "measure (\<lambda>(old, new, s). length s)") (auto simp: neq_Nil_conv)

text \<open>
  With an empty \<^verbatim>\<open>old\<close>, Python inserts \<^verbatim>\<open>new\<close> before every character and at the end:
  \<^verbatim>\<open>"abc".replace("", "-") == "-a-b-c-"\<close>.
\<close>

definition replace :: "'a list \<Rightarrow> 'a list \<Rightarrow> 'a list \<Rightarrow> 'a list" where
  "replace s old new =
     (if old = [] then new @ concat (map (\<lambda>c. c # new) s) else replace_from old new s)"

text \<open>The method call \<^verbatim>\<open>value.replace(old, new)\<close> on a table value.\<close>

definition py_replace :: "pyval \<Rightarrow> string \<Rightarrow> string \<Rightarrow> error + pyval" where
  "py_replace v old new =
     (case v of StrV s \<Rightarrow> Inr (StrV (replace s old new)) | IntV n \<Rightarrow> Inl AttributeError)"

section \<open>The load-time rewrite\<close>

definition keys_to_replace :: "string list" where
  "keys_to_replace = [
    ''BINDIR'', ''BINLIBDEST'', ''CONFINCLUDEDIR'',
    ''CONFINCLUDEPY'', ''DESTDIRS'', ''DESTLIB'', ''DESTSHARED'',
    ''INCLDIRSTOMAKE'', ''INCLUDEDIR'', ''INCLUDEPY'',
    ''LIBDEST'', ''LIBDIR'', ''LIBPC'', ''LIBPL'', ''MACHDESTLIB'',
    ''MANDIR'', ''SCRIPTDIR'', ''datarootdir'', ''exec_prefix'',
    ''TZPATH'']"

text \<open>
  \<^verbatim>\<open>prefix = build_time_vars['BINDIR'][:-4]\<close>.  The variable is called \<open>old_prefix\<close> here,
  as in the specification.
\<close>

definition old_prefix :: "dict \<Rightarrow> error + string" where
  "old_prefix d =
     (case getitem d ''BINDIR'' of Inl e \<Rightarrow> Inl e | Inr b \<Rightarrow> slice_to_minus4 b)"

text \<open>
  The loop \<^verbatim>\<open>for key in keys: value = d[key]; d[key] = value.replace(old, new)\<close>.  An
  exception ends it; otherwise it returns the updated dict.
\<close>

fun normalize_loop :: "string list \<Rightarrow> string \<Rightarrow> string \<Rightarrow> dict \<Rightarrow> error + dict" where
  "normalize_loop [] old new d = Inr d"
| "normalize_loop (key # keys) old new d =
     (case getitem d key of
        Inl e \<Rightarrow> Inl e
      | Inr v \<Rightarrow>
          (case py_replace v old new of
             Inl e \<Rightarrow> Inl e
           | Inr v' \<Rightarrow> normalize_loop keys old new (d(key \<mapsto> v'))))"

text \<open>The pass over the fixed list, for a given pair of old and new prefix.\<close>

definition normalize_pass :: "string \<Rightarrow> string \<Rightarrow> dict \<Rightarrow> error + dict" where
  "normalize_pass old new d = normalize_loop keys_to_replace old new d"

text \<open>
  The module body after the literal: derive the old prefix, then run the pass with
  \<^verbatim>\<open>sys.prefix\<close>, a string that the interpreter provides, here the parameter
  \<open>sys_prefix\<close>.  The mapping is a parameter as well, so that the rewrite can be stated for
  any table; the table of the module is \<open>build_time_vars\<close> below.
\<close>

definition load_and_normalize :: "dict \<Rightarrow> string \<Rightarrow> error + dict" where
  "load_and_normalize d sys_prefix =
     (case old_prefix d of
        Inl e \<Rightarrow> Inl e
      | Inr p \<Rightarrow> normalize_pass p sys_prefix d)"

section \<open>The embedded table\<close>

text \<open>
  The dict literal of the module, entry by entry in source order.  Adjacent string literals
  of the source are kept as appended pieces.  In a dict literal a later entry for the same
  key overrides an earlier one, as the map update does.
\<close>

definition build_time_vars :: dict where
  \<open>build_time_vars = [
    ''ABIFLAGS'' \<mapsto> StrV '''',
    ''AC_APPLE_UNIVERSAL_BUILD'' \<mapsto> IntV 0,
    ''AIX_BUILDDATE'' \<mapsto> IntV 0,
    ''AIX_GENUINE_CPLUSPLUS'' \<mapsto> IntV 0,
    ''ALT_SOABI'' \<mapsto> IntV 0,
    ''ANDROID_API_LEVEL'' \<mapsto> IntV 0,
    ''AR'' \<mapsto> StrV ''ar'',
    ''ARFLAGS'' \<mapsto> StrV ''rcs'',
    ''BASECFLAGS'' \<mapsto> StrV ''-Wno-unused-result -Wsign-compare'',
    ''BASECPPFLAGS'' \<mapsto> StrV ''-IObjects -IInclude -IPython'',
    ''BASEMODLIBS'' \<mapsto> StrV '''',
    ''BINDIR'' \<mapsto> StrV ''C:/buildroot/x86_64-1320-win32-seh-ucrt-rt_v11-rev0/mingw64/opt/bin'',
    ''BINLIBDEST'' \<mapsto> StrV ''C:/buildroot/x86_64-1320-win32-seh-ucrt-rt_v11-rev0/mingw64/opt/lib/python3.9'',
    ''BLDLIBRARY'' \<mapsto> StrV ''-L. -lpython3.9'',
    ''BLDSHARED'' \<mapsto> StrV (''x86_64-w64-mingw32-gcc -shared -Wl,--enable-auto-image-base '' @
        ''-pipe -fno-ident '' @
        ''-L/c/buildroot/x86_64-1320-win32-seh-ucrt-rt_v11-rev0/mingw64/opt/lib '' @
        ''-L/c/buildroot/prerequisites/x86_64-zlib-static/lib '' @
        ''-L/c/buildroot/prerequisites/x86_64-w64-mingw32-static/lib '' @
        ''-LC:/buildroot/prerequisites/x86_64-zlib-static/lib '' @
        ''-LC:/buildroot/x86_64-1320-win32-seh-ucrt-rt_v11-rev0/mingw64/opt/lib''),
    ''BUILDEXE'' \<mapsto> StrV ''.exe'',
    ''BUILDPYTHON'' \<mapsto> StrV ''python.exe'',
    ''BUILDPYTHONW'' \<mapsto> StrV ''pythonw.exe'',
    ''BUILDVENVLAUNCHER'' \<mapsto> StrV ''venvlauncher.exe'',
    ''BUILDVENVWLAUNCHER'' \<mapsto> StrV ''venvwlauncher.exe'',
    ''BUILD_GNU_TYPE'' \<mapsto> StrV ''x86_64-w64-mingw32'',
    ''BYTESTR_DEPS'' \<mapsto> StrV [bslash],
    ''CC'' \<mapsto> StrV ''x86_64-w64-mingw32-gcc'',
    ''CCSHARED'' \<mapsto> StrV '''',
    ''CFLAGS'' \<mapsto> StrV (''-Wno-unused-result -Wsign-compare -DNDEBUG -g -fwrapv -O3 -Wall '' @
        ''-O2 -pipe -fno-ident '' @
        ''-I/c/buildroot/x86_64-1320-win32-seh-ucrt-rt_v11-rev0/mingw64/opt/include '' @
        ''-I/c/buildroot/prerequisites/x86_64-zlib-static/include '' @
        ''-I/c/buildroot/prerequisites/x86_64-w64-mingw32-static/include '' @
        ''-D__USE_MINGW_ANSI_STDIO=1''),
    ''CFLAGSFORSHARED'' \<mapsto> StrV '''',
    ''CFLAGS_ALIASING'' \<mapsto> StrV '''',
    ''CONFIGFILES'' \<mapsto> StrV (''configure configure.ac acconfig.h pyconfig.h.in '' @
        ''Makefile.pre.in''),
    ''CONFIGURE_CFLAGS'' \<mapsto> StrV (''-O2 -pipe -fno-ident '' @
        ''-I/c/buildroot/x86_64-1320-win32-seh-ucrt-rt_v11-rev0/mingw64/opt/include '' @
        ''-I/c/buildroot/prerequisites/x86_64-zlib-static/include '' @
        ''-I/c/buildroot/prerequisites/x86_64-w64-mingw32-static/include '' @
        ''-D__USE_MINGW_ANSI_STDIO=1''),
    ''CONFIGURE_CFLAGS_NODIST'' \<mapsto> StrV (''-std=c99 -Wextra -Wno-unused-result '' @
        ''-Wno-unused-parameter '' @
        ''-Wno-missing-field-initializers '' @
        ''-Wstrict-prototypes '' @
        ''-Werror=implicit-function-declaration '' @
        ''-fvisibility=hidden -D_WIN32_WINNT=0x0601 '' @
        ''-DMS_DLL_ID='"3.9"'' @ [squote]),
    ''CONFIGURE_CPPFLAGS'' \<mapsto> StrV (''-I../../../src/Python-3.9.10/PC  '' @
        ''-I/c/buildroot/x86_64-1320-win32-seh-ucrt-rt_v11-rev0/mingw64/opt/include '' @
        ''-I/c/buildroot/prerequisites/x86_64-zlib-static/include '' @
        ''-I/c/buildroot/prerequisites/x86_64-w64-mingw32-static/include '' @
        ''-IC:/buildroot/x86_64-1320-win32-seh-ucrt-rt_v11-rev0/mingw64/opt/include '' @
        ''-IC:/buildroot/x86_64-1320-win32-seh-ucrt-rt_v11-rev0/mingw64/opt/include/ncursesw '' @
        ''-IC:/buildroot/prerequisites/x86_64-zlib-static/include '' @
        ''-I.''),
    ''CONFIGURE_LDFLAGS'' \<mapsto> StrV (''-pipe -fno-ident '' @
        ''-L/c/buildroot/x86_64-1320-win32-seh-ucrt-rt_v11-rev0/mingw64/opt/lib '' @
        ''-L/c/buildroot/prerequisites/x86_64-zlib-static/lib '' @
        ''-L/c/buildroot/prerequisites/x86_64-w64-mingw32-static/lib '' @
        ''-LC:/buildroot/prerequisites/x86_64-zlib-static/lib '' @
        ''-LC:/buildroot/x86_64-1320-win32-seh-ucrt-rt_v11-rev0/mingw64/opt/lib''),
    ''CONFIGURE_LDFLAGS_NODIST'' \<mapsto> StrV '''',
    ''CONFIG_ARGS'' \<mapsto> StrV ('''--host=x86_64-w64-mingw32' '--build=x86_64-w64-mingw32' '' @
        '''--prefix=C:/buildroot/x86_64-1320-win32-seh-ucrt-rt_v11-rev0/mingw64/opt' '' @
        '''--enable-shared' '--with-system-expat' '--with-system-ffi' '' @
        '''--enable-loadable-sqlite-extensions' '--without-ensurepip' '' @
        '''--without-c-locale-coercion' '--enable-optimizations' '' @
        '''LIBFFI_INCLUDEDIR=C:/buildroot/x86_64-1320-win32-seh-ucrt-rt_v11-rev0/mingw64/opt/lib/libffi-3.2.1/include' '' @
        '''CFLAGS=-O2 -pipe -fno-ident '' @
        ''-I/c/buildroot/x86_64-1320-win32-seh-ucrt-rt_v11-rev0/mingw64/opt/include '' @
        ''-I/c/buildroot/prerequisites/x86_64-zlib-static/include '' @
        ''-I/c/buildroot/prerequisites/x86_64-w64-mingw32-static/include '' @
        ''-D__USE_MINGW_ANSI_STDIO=1' 'CPPFLAGS= '' @
        ''-I/c/buildroot/x86_64-1320-win32-seh-ucrt-rt_v11-rev0/mingw64/opt/include '' @
        ''-I/c/buildroot/prerequisites/x86_64-zlib-static/include '' @
        ''-I/c/buildroot/prerequisites/x86_64-w64-mingw32-static/include '' @
        ''-IC:/buildroot/x86_64-1320-win32-seh-ucrt-rt_v11-rev0/mingw64/opt/include '' @
        ''-IC:/buildroot/x86_64-1320-win32-seh-ucrt-rt_v11-rev0/mingw64/opt/include/ncursesw '' @
        ''-IC:/buildroot/prerequisites/x86_64-zlib-static/include' '' @
        '''LDFLAGS=-pipe -fno-ident '' @
        ''-L/c/buildroot/x86_64-1320-win32-seh-ucrt-rt_v11-rev0/mingw64/opt/lib '' @
        ''-L/c/buildroot/prerequisites/x86_64-zlib-static/lib '' @
        ''-L/c/buildroot/prerequisites/x86_64-w64-mingw32-static/lib '' @
        ''-LC:/buildroot/prerequisites/x86_64-zlib-static/lib '' @
        ''-LC:/buildroot/x86_64-1320-win32-seh-ucrt-rt_v11-rev0/mingw64/opt/lib' '' @
        '''build_alias=x86_64-w64-mingw32' '' @
        '''host_alias=x86_64-w64-mingw32'' @ [squote]),
    ''CONFINCLUDEDIR'' \<mapsto> StrV ''C:/buildroot/x86_64-1320-win32-seh-ucrt-rt_v11-rev0/mingw64/opt/include'',
    ''CONFINCLUDEPY'' \<mapsto> StrV ''C:/buildroot/x86_64-1320-win32-seh-ucrt-rt_v11-rev0/mingw64/opt/include/python3.9'',
    ''COREPYTHONPATH'' \<mapsto> StrV '''',
    ''COVERAGE_INFO'' \<mapsto> StrV ''/c/buildroot/x86_64-1320-win32-seh-ucrt-rt_v11-rev0/build/Python-3.9.10/coverage.info'',
    ''COVERAGE_REPORT'' \<mapsto> StrV ''/c/buildroot/x86_64-1320-win32-seh-ucrt-rt_v11-rev0/build/Python-3.9.10/lcov-report'',
    ''COVERAGE_REPORT_OPTIONS'' \<mapsto> StrV (''--no-branch-coverage --title "CPython lcov '' @
        ''report"''),
    ''CPPFLAGS'' \<mapsto> StrV (''-IObjects -IInclude -IPython -I. '' @
        ''-I../../../src/Python-3.9.10/Include '' @
        ''-I../../../src/Python-3.9.10/PC  '' @
        ''-I/c/buildroot/x86_64-1320-win32-seh-ucrt-rt_v11-rev0/mingw64/opt/include '' @
        ''-I/c/buildroot/prerequisites/x86_64-zlib-static/include '' @
        ''-I/c/buildroot/prerequisites/x86_64-w64-mingw32-static/include '' @
        ''-IC:/buildroot/x86_64-1320-win32-seh-ucrt-rt_v11-rev0/mingw64/opt/include '' @
        ''-IC:/buildroot/x86_64-1320-win32-seh-ucrt-rt_v11-rev0/mingw64/opt/include/ncursesw '' @
        ''-IC:/buildroot/prerequisites/x86_64-zlib-static/include -I.''),
    ''CXX'' \<mapsto> StrV ''x86_64-w64-mingw32-c++'',
    ''DESTDIR'' \<mapsto> StrV '''',
    ''DESTDIRFINAL'' \<mapsto> StrV ''/'',
    ''DESTDIRS'' \<mapsto> StrV (''C:/buildroot/x86_64-1320-win32-seh-ucrt-rt_v11-rev0/mingw64/opt '' @
        ''C:/buildroot/x86_64-1320-win32-seh-ucrt-rt_v11-rev0/mingw64/opt/lib '' @
        ''C:/buildroot/x86_64-1320-win32-seh-ucrt-rt_v11-rev0/mingw64/opt/lib/python3.9 '' @
        ''C:/buildroot/x86_64-1320-win32-seh-ucrt-rt_v11-rev0/mingw64/opt/lib/python3.9/lib-dynload''),
    ''DESTLIB'' \<mapsto> StrV ''C:/buildroot/x86_64-1320-win32-seh-ucrt-rt_v11-rev0/mingw64/opt/lib/python3.9'',
    ''DESTPATH'' \<mapsto> StrV '''',
    ''DESTSHARED'' \<mapsto> StrV ''C:/buildroot/x86_64-1320-win32-seh-ucrt-rt_v11-rev0/mingw64/opt/lib/python3.9/lib-dynload'',
    ''DFLAGS'' \<mapsto> StrV '''',
    ''DIRMODE'' \<mapsto> IntV 755,
    ''DIST'' \<mapsto> StrV (''README.rst ChangeLog configure configure.ac acconfig.h pyconfig.h.in '' @
        ''Makefile.pre.in Include Lib Misc Ext-dummy''),
    ''DISTDIRS'' \<mapsto> StrV ''Include Lib Misc Ext-dummy'',
    ''DISTFILES'' \<mapsto> StrV (''README.rst ChangeLog configure configure.ac acconfig.h '' @
        ''pyconfig.h.in Makefile.pre.in''),
    ''DLINCLDIR'' \<mapsto> StrV ''.'',
    ''DLLLIBRARY'' \<mapsto> StrV ''libpython3.9.dll'',
    ''DOUBLE_IS_ARM_MIXED_ENDIAN_IEEE754'' \<mapsto> IntV 0,
    ''DOUBLE_IS_BIG_ENDIAN_IEEE754'' \<mapsto> IntV 0,
    ''DOUBLE_IS_LITTLE_ENDIAN_IEEE754'' \<mapsto> IntV 1,
    ''DTRACE'' \<mapsto> StrV '''',
    ''DTRACE_DEPS'' \<mapsto> StrV [bslash],
    ''DTRACE_HEADERS'' \<mapsto> StrV '''',
    ''DTRACE_OBJS'' \<mapsto> StrV '''',
    ''DYNLOADFILE'' \<mapsto> StrV ''dynload_win.o'',
    ''ENABLE_IPV6'' \<mapsto> IntV 0,
    ''ENSUREPIP'' \<mapsto> StrV ''no'',
    ''EXE'' \<mapsto> StrV ''.exe'',
    ''EXEMODE'' \<mapsto> IntV 755,
    ''EXPORTSFROM'' \<mapsto> StrV '''',
    ''EXPORTSYMS'' \<mapsto> StrV '''',
    ''EXTRATESTOPTS'' \<mapsto> StrV '''',
    ''EXTRA_CFLAGS'' \<mapsto> StrV '''',
    ''EXT_SUFFIX'' \<mapsto> StrV ''.cp39-mingw_x86_64_ucrt.pyd'',
    ''FILEMODE'' \<mapsto> IntV 644,
    ''FLOAT_WORDS_BIGENDIAN'' \<mapsto> IntV 0,
    ''FLOCK_NEEDS_LIBBSD'' \<mapsto> IntV 0,
    ''GETPGRP_HAVE_ARG'' \<mapsto> IntV 0,
    ''GITBRANCH'' \<mapsto> StrV (''git --git-dir ../../../src/Python-3.9.10/.git name-rev '' @
        ''--name-only HEAD''),
    ''GITTAG'' \<mapsto> StrV (''git --git-dir ../../../src/Python-3.9.10/.git describe --all '' @
        ''--always --dirty''),
    ''GITVERSION'' \<mapsto> StrV (''git --git-dir ../../../src/Python-3.9.10/.git rev-parse '' @
        ''--short HEAD''),
    ''GNULD'' \<mapsto> StrV ''yes'',
    ''HAVE_ACCEPT4'' \<mapsto> IntV 0,
    ''HAVE_ACOSH'' \<mapsto> IntV 1,
    ''HAVE_ADDRINFO'' \<mapsto> IntV 1,
    ''HAVE_ALARM'' \<mapsto> IntV 0,
    ''HAVE_ALIGNED_REQUIRED'' \<mapsto> IntV 0,
    ''HAVE_ALLOCA_H'' \<mapsto> IntV 0,
    ''HAVE_ALTZONE'' \<mapsto> IntV 0,
    ''HAVE_ASINH'' \<mapsto> IntV 1,
    ''HAVE_ASM_TYPES_H'' \<mapsto> IntV 0,
    ''HAVE_ATANH'' \<mapsto> IntV 1,
    ''HAVE_BIND_TEXTDOMAIN_CODESET'' \<mapsto> IntV 0,
    ''HAVE_BLUETOOTH_BLUETOOTH_H'' \<mapsto> IntV 0,
    ''HAVE_BLUETOOTH_H'' \<mapsto> IntV 0,
    ''HAVE_BROKEN_MBSTOWCS'' \<mapsto> IntV 0,
    ''HAVE_BROKEN_NICE'' \<mapsto> IntV 0,
    ''HAVE_BROKEN_PIPE_BUF'' \<mapsto> IntV 0,
    ''HAVE_BROKEN_POLL'' \<mapsto> IntV 0,
    ''HAVE_BROKEN_POSIX_SEMAPHORES'' \<mapsto> IntV 0,
    ''HAVE_BROKEN_PTHREAD_SIGMASK'' \<mapsto> IntV 0,
    ''HAVE_BROKEN_SEM_GETVALUE'' \<mapsto> IntV 0,
    ''HAVE_BROKEN_UNSETENV'' \<mapsto> IntV 0,
    ''HAVE_BUILTIN_ATOMIC'' \<mapsto> IntV 1,
    ''HAVE_CHFLAGS'' \<mapsto> IntV 0,
    ''HAVE_CHOWN'' \<mapsto> IntV 0,
    ''HAVE_CHROOT'' \<mapsto> IntV 0,
    ''HAVE_CLOCK'' \<mapsto> IntV 1,
    ''HAVE_CLOCK_GETRES'' \<mapsto> IntV 0,
    ''HAVE_CLOCK_GETTIME'' \<mapsto> IntV 0,
    ''HAVE_CLOCK_SETTIME'' \<mapsto> IntV 0,
    ''HAVE_COMPUTED_GOTOS'' \<mapsto> IntV 1,
    ''HAVE_CONFSTR'' \<mapsto> IntV 0,
    ''HAVE_CONIO_H'' \<mapsto> IntV 1,
    ''HAVE_COPYSIGN'' \<mapsto> IntV 1,
    ''HAVE_COPY_FILE_RANGE'' \<mapsto> IntV 0,
    ''HAVE_CRYPT_H'' \<mapsto> IntV 0,
    ''HAVE_CRYPT_R'' \<mapsto> IntV 0,
    ''HAVE_CTERMID'' \<mapsto> IntV 0,
    ''HAVE_CTERMID_R'' \<mapsto> IntV 0,
    ''HAVE_CURSES_FILTER'' \<mapsto> IntV 0,
    ''HAVE_CURSES_H'' \<mapsto> IntV 0,
    ''HAVE_CURSES_HAS_KEY'' \<mapsto> IntV 0,
    ''HAVE_CURSES_IMMEDOK'' \<mapsto> IntV 0,
    ''HAVE_CURSES_IS_PAD'' \<mapsto> IntV 0,
    ''HAVE_CURSES_IS_TERM_RESIZED'' \<mapsto> IntV 0,
    ''HAVE_CURSES_RESIZETERM'' \<mapsto> IntV 0,
    ''HAVE_CURSES_RESIZE_TERM'' \<mapsto> IntV 0,
    ''HAVE_CURSES_SYNCOK'' \<mapsto> IntV 0,
    ''HAVE_CURSES_TYPEAHEAD'' \<mapsto> IntV 0,
    ''HAVE_CURSES_USE_ENV'' \<mapsto> IntV 0,
    ''HAVE_CURSES_WCHGAT'' \<mapsto> IntV 0,
    ''HAVE_DECL_ISFINITE'' \<mapsto> IntV 1,
    ''HAVE_DECL_ISINF'' \<mapsto> IntV 1,
    ''HAVE_DECL_ISNAN'' \<mapsto> IntV 1,
    ''HAVE_DECL_RTLD_DEEPBIND'' \<mapsto> IntV 0,
    ''HAVE_DECL_RTLD_GLOBAL'' \<mapsto> IntV 0,
    ''HAVE_DECL_RTLD_LAZY'' \<mapsto> IntV 0,
    ''HAVE_DECL_RTLD_LOCAL'' \<mapsto> IntV 0,
    ''HAVE_DECL_RTLD_MEMBER'' \<mapsto> IntV 0,
    ''HAVE_DECL_RTLD_NODELETE'' \<mapsto> IntV 0,
    ''HAVE_DECL_RTLD_NOLOAD'' \<mapsto> IntV 0,
    ''HAVE_DECL_RTLD_NOW'' \<mapsto> IntV 0,
    ''HAVE_DECL_TZNAME'' \<mapsto> IntV 1,
    ''HAVE_DEVICE_MACROS'' \<mapsto> IntV 0,
    ''HAVE_DEV_PTC'' \<mapsto> IntV 0,
    ''HAVE_DEV_PTMX'' \<mapsto> IntV 0,
    ''HAVE_DIRECT_H'' \<mapsto> IntV 1,
    ''HAVE_DIRENT_D_TYPE'' \<mapsto> IntV 0,
    ''HAVE_DIRENT_H'' \<mapsto> IntV 1,
    ''HAVE_DIRFD'' \<mapsto> IntV 0,
    ''HAVE_DLFCN_H'' \<mapsto> IntV 0,
    ''HAVE_DLOPEN'' \<mapsto> IntV 0,
    ''HAVE_DUP2'' \<mapsto> IntV 1,
    ''HAVE_DUP3'' \<mapsto> IntV 0,
    ''HAVE_DYLD_SHARED_CACHE_CONTAINS_PATH'' \<mapsto> IntV 0,
    ''HAVE_DYNAMIC_LOADING'' \<mapsto> IntV 1,
    ''HAVE_ENDIAN_H'' \<mapsto> IntV 0,
    ''HAVE_EPOLL'' \<mapsto> IntV 0,
    ''HAVE_EPOLL_CREATE1'' \<mapsto> IntV 0,
    ''HAVE_ERF'' \<mapsto> IntV 1,
    ''HAVE_ERFC'' \<mapsto> IntV 1,
    ''HAVE_ERRNO_H'' \<mapsto> IntV 1,
    ''HAVE_EXECV'' \<mapsto> IntV 1,
    ''HAVE_EXPLICIT_BZERO'' \<mapsto> IntV 0,
    ''HAVE_EXPLICIT_MEMSET'' \<mapsto> IntV 0,
    ''HAVE_EXPM1'' \<mapsto> IntV 1,
    ''HAVE_FACCESSAT'' \<mapsto> IntV 0,
    ''HAVE_FCHDIR'' \<mapsto> IntV 0,
    ''HAVE_FCHMOD'' \<mapsto> IntV 0,
    ''HAVE_FCHMODAT'' \<mapsto> IntV 0,
    ''HAVE_FCHOWN'' \<mapsto> IntV 0,
    ''HAVE_FCHOWNAT'' \<mapsto> IntV 0,
    ''HAVE_FCNTL_H'' \<mapsto> IntV 1,
    ''HAVE_FDATASYNC'' \<mapsto> IntV 0,
    ''HAVE_FDOPENDIR'' \<mapsto> IntV 0,
    ''HAVE_FDWALK'' \<mapsto> IntV 0,
    ''HAVE_FEXECVE'' \<mapsto> IntV 0,
    ''HAVE_FINITE'' \<mapsto> IntV 1,
    ''HAVE_FLOCK'' \<mapsto> IntV 0,
    ''HAVE_FORK'' \<mapsto> IntV 0,
    ''HAVE_FORKPTY'' \<mapsto> IntV 0,
    ''HAVE_FPATHCONF'' \<mapsto> IntV 0,
    ''HAVE_FSEEK64'' \<mapsto> IntV 0,
    ''HAVE_FSEEKO'' \<mapsto> IntV 1,
    ''HAVE_FSTATAT'' \<mapsto> IntV 0,
    ''HAVE_FSTATVFS'' \<mapsto> IntV 0,
    ''HAVE_FSYNC'' \<mapsto> IntV 0,
    ''HAVE_FTELL64'' \<mapsto> IntV 0,
    ''HAVE_FTELLO'' \<mapsto> IntV 1,
    ''HAVE_FTIME'' \<mapsto> IntV 1,
    ''HAVE_FTRUNCATE'' \<mapsto> IntV 0,
    ''HAVE_FUTIMENS'' \<mapsto> IntV 0,
    ''HAVE_FUTIMES'' \<mapsto> IntV 0,
    ''HAVE_FUTIMESAT'' \<mapsto> IntV 0,
    ''HAVE_GAI_STRERROR'' \<mapsto> IntV 0,
    ''HAVE_GAMMA'' \<mapsto> IntV 0,
    ''HAVE_GCC_ASM_FOR_MC68881'' \<mapsto> IntV 0,
    ''HAVE_GCC_ASM_FOR_X64'' \<mapsto> IntV 1,
    ''HAVE_GCC_ASM_FOR_X87'' \<mapsto> IntV 1,
    ''HAVE_GCC_UINT128_T'' \<mapsto> IntV 1,
    ''HAVE_GETADDRINFO'' \<mapsto> IntV 0,
    ''HAVE_GETC_UNLOCKED'' \<mapsto> IntV 0,
    ''HAVE_GETENTROPY'' \<mapsto> IntV 0,
    ''HAVE_GETGRGID_R'' \<mapsto> IntV 0,
    ''HAVE_GETGRNAM_R'' \<mapsto> IntV 0,
    ''HAVE_GETGROUPLIST'' \<mapsto> IntV 0,
    ''HAVE_GETGROUPS'' \<mapsto> IntV 0,
    ''HAVE_GETHOSTBYNAME'' \<mapsto> IntV 0,
    ''HAVE_GETHOSTBYNAME_R'' \<mapsto> IntV 0,
    ''HAVE_GETHOSTBYNAME_R_3_ARG'' \<mapsto> IntV 0,
    ''HAVE_GETHOSTBYNAME_R_5_ARG'' \<mapsto> IntV 0,
    ''HAVE_GETHOSTBYNAME_R_6_ARG'' \<mapsto> IntV 0,
    ''HAVE_GETITIMER'' \<mapsto> IntV 0,
    ''HAVE_GETLOADAVG'' \<mapsto> IntV 0,
    ''HAVE_GETLOGIN'' \<mapsto> IntV 1,
    ''HAVE_GETNAMEINFO'' \<mapsto> IntV 0,
    ''HAVE_GETPAGESIZE'' \<mapsto> IntV 0,
    ''HAVE_GETPEERNAME'' \<mapsto> IntV 1,
    ''HAVE_GETPGID'' \<mapsto> IntV 0,
    ''HAVE_GETPGRP'' \<mapsto> IntV 0,
    ''HAVE_GETPID'' \<mapsto> IntV 1,
    ''HAVE_GETPRIORITY'' \<mapsto> IntV 0,
    ''HAVE_GETPWENT'' \<mapsto> IntV 0,
    ''HAVE_GETPWNAM_R'' \<mapsto> IntV 0,
    ''HAVE_GETPWUID_R'' \<mapsto> IntV 0,
    ''HAVE_GETRANDOM'' \<mapsto> IntV 0,
    ''HAVE_GETRANDOM_SYSCALL'' \<mapsto> IntV 0,
    ''HAVE_GETRESGID'' \<mapsto> IntV 0,
    ''HAVE_GETRESUID'' \<mapsto> IntV 0,
    ''HAVE_GETSID'' \<mapsto> IntV 0,
    ''HAVE_GETSPENT'' \<mapsto> IntV 0,
    ''HAVE_GETSPNAM'' \<mapsto> IntV 0,
    ''HAVE_GETWD'' \<mapsto> IntV 0,
    ''HAVE_GLIBC_MEMMOVE_BUG'' \<mapsto> IntV 0,
    ''HAVE_GRP_H'' \<mapsto> IntV 0,
    ''HAVE_HSTRERROR'' \<mapsto> IntV 0,
    ''HAVE_HTOLE64'' \<mapsto> IntV 0,
    ''HAVE_HYPOT'' \<mapsto> IntV 1,
    ''HAVE_IEEEFP_H'' \<mapsto> IntV 1,
    ''HAVE_IF_NAMEINDEX'' \<mapsto> IntV 0,
    ''HAVE_INET_ATON'' \<mapsto> IntV 0,
    ''HAVE_INET_PTON'' \<mapsto> IntV 1,
    ''HAVE_INITGROUPS'' \<mapsto> IntV 0,
    ''HAVE_INTTYPES_H'' \<mapsto> IntV 1,
    ''HAVE_IO_H'' \<mapsto> IntV 1,
    ''HAVE_IPA_PURE_CONST_BUG'' \<mapsto> IntV 0,
    ''HAVE_KILL'' \<mapsto> IntV 0,
    ''HAVE_KILLPG'' \<mapsto> IntV 0,
    ''HAVE_KQUEUE'' \<mapsto> IntV 0,
    ''HAVE_LANGINFO_H'' \<mapsto> IntV 0,
    ''HAVE_LARGEFILE_SUPPORT'' \<mapsto> IntV 1,
    ''HAVE_LCHFLAGS'' \<mapsto> IntV 0,
    ''HAVE_LCHMOD'' \<mapsto> IntV 0,
    ''HAVE_LCHOWN'' \<mapsto> IntV 0,
    ''HAVE_LGAMMA'' \<mapsto> IntV 1,
    ''HAVE_LIBDL'' \<mapsto> IntV 0,
    ''HAVE_LIBDLD'' \<mapsto> IntV 0,
    ''HAVE_LIBIEEE'' \<mapsto> IntV 0,
    ''HAVE_LIBINTL_H'' \<mapsto> IntV 0,
    ''HAVE_LIBREADLINE'' \<mapsto> IntV 1,
    ''HAVE_LIBRESOLV'' \<mapsto> IntV 0,
    ''HAVE_LIBSENDFILE'' \<mapsto> IntV 0,
    ''HAVE_LIBUTIL_H'' \<mapsto> IntV 0,
    ''HAVE_LIBUUID'' \<mapsto> IntV 0,
    ''HAVE_LINK'' \<mapsto> IntV 0,
    ''HAVE_LINKAT'' \<mapsto> IntV 0,
    ''HAVE_LINUX_CAN_BCM_H'' \<mapsto> IntV 0,
    ''HAVE_LINUX_CAN_H'' \<mapsto> IntV 0,
    ''HAVE_LINUX_CAN_J1939_H'' \<mapsto> IntV 0,
    ''HAVE_LINUX_CAN_RAW_FD_FRAMES'' \<mapsto> IntV 0,
    ''HAVE_LINUX_CAN_RAW_H'' \<mapsto> IntV 0,
    ''HAVE_LINUX_CAN_RAW_JOIN_FILTERS'' \<mapsto> IntV 0,
    ''HAVE_LINUX_MEMFD_H'' \<mapsto> IntV 0,
    ''HAVE_LINUX_NETLINK_H'' \<mapsto> IntV 0,
    ''HAVE_LINUX_QRTR_H'' \<mapsto> IntV 0,
    ''HAVE_LINUX_RANDOM_H'' \<mapsto> IntV 0,
    ''HAVE_LINUX_TIPC_H'' \<mapsto> IntV 0,
    ''HAVE_LINUX_VM_SOCKETS_H'' \<mapsto> IntV 0,
    ''HAVE_LINUX_WAIT_H'' \<mapsto> IntV 0,
    ''HAVE_LOCKF'' \<mapsto> IntV 0,
    ''HAVE_LOG1P'' \<mapsto> IntV 1,
    ''HAVE_LOG2'' \<mapsto> IntV 1,
    ''HAVE_LONG_DOUBLE'' \<mapsto> IntV 1,
    ''HAVE_LSTAT'' \<mapsto> IntV 0,
    ''HAVE_LUTIMES'' \<mapsto> IntV 0,
    ''HAVE_MADVISE'' \<mapsto> IntV 0,
    ''HAVE_MAKEDEV'' \<mapsto> IntV 0,
    ''HAVE_MBRTOWC'' \<mapsto> IntV 1,
    ''HAVE_MEMFD_CREATE'' \<mapsto> IntV 0,
    ''HAVE_MEMORY_H'' \<mapsto> IntV 1,
    ''HAVE_MEMRCHR'' \<mapsto> IntV 0,
    ''HAVE_MKDIRAT'' \<mapsto> IntV 0,
    ''HAVE_MKFIFO'' \<mapsto> IntV 0,
    ''HAVE_MKFIFOAT'' \<mapsto> IntV 0,
    ''HAVE_MKNOD'' \<mapsto> IntV 0,
    ''HAVE_MKNODAT'' \<mapsto> IntV 0,
    ''HAVE_MKTIME'' \<mapsto> IntV 1,
    ''HAVE_MMAP'' \<mapsto> IntV 0,
    ''HAVE_MREMAP'' \<mapsto> IntV 0,
    ''HAVE_NCURSES_H'' \<mapsto> IntV 0,
    ''HAVE_NDIR_H'' \<mapsto> IntV 0,
    ''HAVE_NETPACKET_PACKET_H'' \<mapsto> IntV 0,
    ''HAVE_NET_IF_H'' \<mapsto> IntV 0,
    ''HAVE_NICE'' \<mapsto> IntV 0,
    ''HAVE_NON_UNICODE_WCHAR_T_REPRESENTATION'' \<mapsto> IntV 0,
    ''HAVE_OPENAT'' \<mapsto> IntV 0,
    ''HAVE_OPENPTY'' \<mapsto> IntV 0,
    ''HAVE_PATHCONF'' \<mapsto> IntV 0,
    ''HAVE_PAUSE'' \<mapsto> IntV 0,
    ''HAVE_PIPE2'' \<mapsto> IntV 0,
    ''HAVE_PLOCK'' \<mapsto> IntV 0,
    ''HAVE_POLL'' \<mapsto> IntV 0,
    ''HAVE_POLL_H'' \<mapsto> IntV 0,
    ''HAVE_POSIX_FADVISE'' \<mapsto> IntV 0,
    ''HAVE_POSIX_FALLOCATE'' \<mapsto> IntV 0,
    ''HAVE_POSIX_SPAWN'' \<mapsto> IntV 0,
    ''HAVE_POSIX_SPAWNP'' \<mapsto> IntV 0,
    ''HAVE_PREAD'' \<mapsto> IntV 0,
    ''HAVE_PREADV'' \<mapsto> IntV 0,
    ''HAVE_PREADV2'' \<mapsto> IntV 0,
    ''HAVE_PRLIMIT'' \<mapsto> IntV 0,
    ''HAVE_PROCESS_H'' \<mapsto> IntV 1,
    ''HAVE_PROTOTYPES'' \<mapsto> IntV 1,
    ''HAVE_PTHREAD_CONDATTR_SETCLOCK'' \<mapsto> IntV 0,
    ''HAVE_PTHREAD_DESTRUCTOR'' \<mapsto> IntV 0,
    ''HAVE_PTHREAD_GETCPUCLOCKID'' \<mapsto> IntV 0,
    ''HAVE_PTHREAD_H'' \<mapsto> IntV 0,
    ''HAVE_PTHREAD_INIT'' \<mapsto> IntV 0,
    ''HAVE_PTHREAD_KILL'' \<mapsto> IntV 0,
    ''HAVE_PTHREAD_SIGMASK'' \<mapsto> IntV 0,
    ''HAVE_PTY_H'' \<mapsto> IntV 0,
    ''HAVE_PWRITE'' \<mapsto> IntV 0,
    ''HAVE_PWRITEV'' \<mapsto> IntV 0,
    ''HAVE_PWRITEV2'' \<mapsto> IntV 0,
    ''HAVE_READLINK'' \<mapsto> IntV 0,
    ''HAVE_READLINKAT'' \<mapsto> IntV 0,
    ''HAVE_READV'' \<mapsto> IntV 0,
    ''HAVE_REALPATH'' \<mapsto> IntV 0,
    ''HAVE_RENAMEAT'' \<mapsto> IntV 0,
    ''HAVE_RL_APPEND_HISTORY'' \<mapsto> IntV 1,
    ''HAVE_RL_CATCH_SIGNAL'' \<mapsto> IntV 1,
    ''HAVE_RL_COMPLETION_APPEND_CHARACTER'' \<mapsto> IntV 1,
    ''HAVE_RL_COMPLETION_DISPLAY_MATCHES_HOOK'' \<mapsto> IntV 1,
    ''HAVE_RL_COMPLETION_MATCHES'' \<mapsto> IntV 1,
    ''HAVE_RL_COMPLETION_SUPPRESS_APPEND'' \<mapsto> IntV 1,
    ''HAVE_RL_PRE_INPUT_HOOK'' \<mapsto> IntV 1,
    ''HAVE_RL_RESIZE_TERMINAL'' \<mapsto> IntV 1,
    ''HAVE_ROUND'' \<mapsto> IntV 1,
    ''HAVE_RTPSPAWN'' \<mapsto> IntV 0,
    ''HAVE_SCHED_GET_PRIORITY_MAX'' \<mapsto> IntV 0,
    ''HAVE_SCHED_H'' \<mapsto> IntV 0,
    ''HAVE_SCHED_RR_GET_INTERVAL'' \<mapsto> IntV 0,
    ''HAVE_SCHED_SETAFFINITY'' \<mapsto> IntV 0,
    ''HAVE_SCHED_SETPARAM'' \<mapsto> IntV 0,
    ''HAVE_SCHED_SETSCHEDULER'' \<mapsto> IntV 0,
    ''HAVE_SEM_CLOCKWAIT'' \<mapsto> IntV 0,
    ''HAVE_SEM_GETVALUE'' \<mapsto> IntV 0,
    ''HAVE_SEM_OPEN'' \<mapsto> IntV 0,
    ''HAVE_SEM_TIMEDWAIT'' \<mapsto> IntV 0,
    ''HAVE_SEM_UNLINK'' \<mapsto> IntV 0,
    ''HAVE_SENDFILE'' \<mapsto> IntV 0,
    ''HAVE_SETEGID'' \<mapsto> IntV 0,
    ''HAVE_SETEUID'' \<mapsto> IntV 0,
    ''HAVE_SETGID'' \<mapsto> IntV 0,
    ''HAVE_SETGROUPS'' \<mapsto> IntV 0,
    ''HAVE_SETHOSTNAME'' \<mapsto> IntV 0,
    ''HAVE_SETITIMER'' \<mapsto> IntV 0,
    ''HAVE_SETLOCALE'' \<mapsto> IntV 1,
    ''HAVE_SETPGID'' \<mapsto> IntV 0,
    ''HAVE_SETPGRP'' \<mapsto> IntV 0,
    ''HAVE_SETPRIORITY'' \<mapsto> IntV 0,
    ''HAVE_SETREGID'' \<mapsto> IntV 0,
    ''HAVE_SETRESGID'' \<mapsto> IntV 0,
    ''HAVE_SETRESUID'' \<mapsto> IntV 0,
    ''HAVE_SETREUID'' \<mapsto> IntV 0,
    ''HAVE_SETSID'' \<mapsto> IntV 0,
    ''HAVE_SETUID'' \<mapsto> IntV 0,
    ''HAVE_SETVBUF'' \<mapsto> IntV 1,
    ''HAVE_SHADOW_H'' \<mapsto> IntV 0,
    ''HAVE_SHM_OPEN'' \<mapsto> IntV 0,
    ''HAVE_SHM_UNLINK'' \<mapsto> IntV 0,
    ''HAVE_SIGACTION'' \<mapsto> IntV 0,
    ''HAVE_SIGALTSTACK'' \<mapsto> IntV 0,
    ''HAVE_SIGFILLSET'' \<mapsto> IntV 0,
    ''HAVE_SIGINFO_T_SI_BAND'' \<mapsto> IntV 0,
    ''HAVE_SIGINTERRUPT'' \<mapsto> IntV 0,
    ''HAVE_SIGNAL_H'' \<mapsto> IntV 1,
    ''HAVE_SIGPENDING'' \<mapsto> IntV 0,
    ''HAVE_SIGRELSE'' \<mapsto> IntV 0,
    ''HAVE_SIGTIMEDWAIT'' \<mapsto> IntV 0,
    ''HAVE_SIGWAIT'' \<mapsto> IntV 0,
    ''HAVE_SIGWAITINFO'' \<mapsto> IntV 0,
    ''HAVE_SNPRINTF'' \<mapsto> IntV 1,
    ''HAVE_SOCKADDR_ALG'' \<mapsto> IntV 0,
    ''HAVE_SOCKADDR_SA_LEN'' \<mapsto> IntV 0,
    ''HAVE_SOCKADDR_STORAGE'' \<mapsto> IntV 1,
    ''HAVE_SOCKETPAIR'' \<mapsto> IntV 0,
    ''HAVE_SPAWN_H'' \<mapsto> IntV 0,
    ''HAVE_SSIZE_T'' \<mapsto> IntV 1,
    ''HAVE_STATVFS'' \<mapsto> IntV 0,
    ''HAVE_STAT_TV_NSEC'' \<mapsto> IntV 0,
    ''HAVE_STAT_TV_NSEC2'' \<mapsto> IntV 0,
    ''HAVE_STDARG_PROTOTYPES'' \<mapsto> IntV 1,
    ''HAVE_STDINT_H'' \<mapsto> IntV 1,
    ''HAVE_STDLIB_H'' \<mapsto> IntV 1,
    ''HAVE_STD_ATOMIC'' \<mapsto> IntV 1,
    ''HAVE_STRDUP'' \<mapsto> IntV 1,
    ''HAVE_STRFTIME'' \<mapsto> IntV 1,
    ''HAVE_STRINGS_H'' \<mapsto> IntV 1,
    ''HAVE_STRING_H'' \<mapsto> IntV 1,
    ''HAVE_STRLCPY'' \<mapsto> IntV 0,
    ''HAVE_STROPTS_H'' \<mapsto> IntV 0,
    ''HAVE_STRSIGNAL'' \<mapsto> IntV 0,
    ''HAVE_STRUCT_PASSWD_PW_GECOS'' \<mapsto> IntV 0,
    ''HAVE_STRUCT_PASSWD_PW_PASSWD'' \<mapsto> IntV 0,
    ''HAVE_STRUCT_STAT_ST_BIRTHTIME'' \<mapsto> IntV 0,
    ''HAVE_STRUCT_STAT_ST_BLKSIZE'' \<mapsto> IntV 0,
    ''HAVE_STRUCT_STAT_ST_BLOCKS'' \<mapsto> IntV 0,
    ''HAVE_STRUCT_STAT_ST_FLAGS'' \<mapsto> IntV 0,
    ''HAVE_STRUCT_STAT_ST_GEN'' \<mapsto> IntV 0,
    ''HAVE_STRUCT_STAT_ST_RDEV'' \<mapsto> IntV 1,
    ''HAVE_STRUCT_TM_TM_ZONE'' \<mapsto> IntV 0,
    ''HAVE_SYMLINK'' \<mapsto> IntV 0,
    ''HAVE_SYMLINKAT'' \<mapsto> IntV 0,
    ''HAVE_SYNC'' \<mapsto> IntV 0,
    ''HAVE_SYSCONF'' \<mapsto> IntV 0,
    ''HAVE_SYSEXITS_H'' \<mapsto> IntV 0,
    ''HAVE_SYS_AUDIOIO_H'' \<mapsto> IntV 0,
    ''HAVE_SYS_BSDTTY_H'' \<mapsto> IntV 0,
    ''HAVE_SYS_DEVPOLL_H'' \<mapsto> IntV 0,
    ''HAVE_SYS_DIR_H'' \<mapsto> IntV 0,
    ''HAVE_SYS_ENDIAN_H'' \<mapsto> IntV 0,
    ''HAVE_SYS_EPOLL_H'' \<mapsto> IntV 0,
    ''HAVE_SYS_EVENT_H'' \<mapsto> IntV 0,
    ''HAVE_SYS_FILE_H'' \<mapsto> IntV 1,
    ''HAVE_SYS_IOCTL_H'' \<mapsto> IntV 0,
    ''HAVE_SYS_KERN_CONTROL_H'' \<mapsto> IntV 0,
    ''HAVE_SYS_LOADAVG_H'' \<mapsto> IntV 0,
    ''HAVE_SYS_LOCK_H'' \<mapsto> IntV 0,
    ''HAVE_SYS_MEMFD_H'' \<mapsto> IntV 0,
    ''HAVE_SYS_MKDEV_H'' \<mapsto> IntV 0,
    ''HAVE_SYS_MMAN_H'' \<mapsto> IntV 0,
    ''HAVE_SYS_MODEM_H'' \<mapsto> IntV 0,
    ''HAVE_SYS_NDIR_H'' \<mapsto> IntV 0,
    ''HAVE_SYS_PARAM_H'' \<mapsto> IntV 1,
    ''HAVE_SYS_POLL_H'' \<mapsto> IntV 0,
    ''HAVE_SYS_RANDOM_H'' \<mapsto> IntV 0,
    ''HAVE_SYS_RESOURCE_H'' \<mapsto> IntV 0,
    ''HAVE_SYS_SELECT_H'' \<mapsto> IntV 0,
    ''HAVE_SYS_SENDFILE_H'' \<mapsto> IntV 0,
    ''HAVE_SYS_SOCKET_H'' \<mapsto> IntV 0,
    ''HAVE_SYS_STATVFS_H'' \<mapsto> IntV 0,
    ''HAVE_SYS_STAT_H'' \<mapsto> IntV 1,
    ''HAVE_SYS_SYSCALL_H'' \<mapsto> IntV 0,
    ''HAVE_SYS_SYSMACROS_H'' \<mapsto> IntV 0,
    ''HAVE_SYS_SYS_DOMAIN_H'' \<mapsto> IntV 0,
    ''HAVE_SYS_TERMIO_H'' \<mapsto> IntV 0,
    ''HAVE_SYS_TIMES_H'' \<mapsto> IntV 0,
    ''HAVE_SYS_TIME_H'' \<mapsto> IntV 1,
    ''HAVE_SYS_TYPES_H'' \<mapsto> IntV 1,
    ''HAVE_SYS_UIO_H'' \<mapsto> IntV 0,
    ''HAVE_SYS_UN_H'' \<mapsto> IntV 0,
    ''HAVE_SYS_UTSNAME_H'' \<mapsto> IntV 0,
    ''HAVE_SYS_WAIT_H'' \<mapsto> IntV 0,
    ''HAVE_SYS_XATTR_H'' \<mapsto> IntV 0,
    ''HAVE_TCGETPGRP'' \<mapsto> IntV 0,
    ''HAVE_TCSETPGRP'' \<mapsto> IntV 0,
    ''HAVE_TEMPNAM'' \<mapsto> IntV 1,
    ''HAVE_TERMIOS_H'' \<mapsto> IntV 0,
    ''HAVE_TERM_H'' \<mapsto> IntV 0,
    ''HAVE_TGAMMA'' \<mapsto> IntV 1,
    ''HAVE_THREAD_H'' \<mapsto> IntV 0,
    ''HAVE_TIMEGM'' \<mapsto> IntV 0,
    ''HAVE_TIMES'' \<mapsto> IntV 0,
    ''HAVE_TMPFILE'' \<mapsto> IntV 1,
    ''HAVE_TMPNAM'' \<mapsto> IntV 1,
    ''HAVE_TMPNAM_R'' \<mapsto> IntV 0,
    ''HAVE_TM_ZONE'' \<mapsto> IntV 0,
    ''HAVE_TRUNCATE'' \<mapsto> IntV 0,
    ''HAVE_TZNAME'' \<mapsto> IntV 1,
    ''HAVE_UCS4_TCL'' \<mapsto> IntV 0,
    ''HAVE_UNAME'' \<mapsto> IntV 0,
    ''HAVE_UNISTD_H'' \<mapsto> IntV 1,
    ''HAVE_UNLINKAT'' \<mapsto> IntV 0,
    ''HAVE_USABLE_WCHAR_T'' \<mapsto> IntV 1,
    ''HAVE_UTIL_H'' \<mapsto> IntV 0,
    ''HAVE_UTIMENSAT'' \<mapsto> IntV 0,
    ''HAVE_UTIMES'' \<mapsto> IntV 0,
    ''HAVE_UTIME_H'' \<mapsto> IntV 1,
    ''HAVE_UUID_CREATE'' \<mapsto> IntV 0,
    ''HAVE_UUID_ENC_BE'' \<mapsto> IntV 0,
    ''HAVE_UUID_GENERATE_TIME_SAFE'' \<mapsto> IntV 0,
    ''HAVE_UUID_H'' \<mapsto> IntV 0,
    ''HAVE_UUID_UUID_H'' \<mapsto> IntV 0,
    ''HAVE_WAIT3'' \<mapsto> IntV 0,
    ''HAVE_WAIT4'' \<mapsto> IntV 0,
    ''HAVE_WAITID'' \<mapsto> IntV 0,
    ''HAVE_WAITPID'' \<mapsto> IntV 0,
    ''HAVE_WCHAR_H'' \<mapsto> IntV 1,
    ''HAVE_WCSCOLL'' \<mapsto> IntV 1,
    ''HAVE_WCSFTIME'' \<mapsto> IntV 1,
    ''HAVE_WCSXFRM'' \<mapsto> IntV 1,
    ''HAVE_WMEMCMP'' \<mapsto> IntV 1,
    ''HAVE_WORKING_TZSET'' \<mapsto> IntV 0,
    ''HAVE_WRITEV'' \<mapsto> IntV 0,
    ''HAVE_WS2TCPIP_H'' \<mapsto> IntV 1,
    ''HAVE_X509_VERIFY_PARAM_SET1_HOST'' \<mapsto> IntV 0,
    ''HAVE_ZLIB_COPY'' \<mapsto> IntV 1,
    ''HAVE__GETPTY'' \<mapsto> IntV 0,
    ''HOST_GNU_TYPE'' \<mapsto> StrV ''x86_64-w64-mingw32'',
    ''INCLDIRSTOMAKE'' \<mapsto> StrV (''C:/buildroot/x86_64-1320-win32-seh-ucrt-rt_v11-rev0/mingw64/opt/include '' @
        ''C:/buildroot/x86_64-1320-win32-seh-ucrt-rt_v11-rev0/mingw64/opt/include '' @
        ''C:/buildroot/x86_64-1320-win32-seh-ucrt-rt_v11-rev0/mingw64/opt/include/python3.9 '' @
        ''C:/buildroot/x86_64-1320-win32-seh-ucrt-rt_v11-rev0/mingw64/opt/include/python3.9''),
    ''INCLUDEDIR'' \<mapsto> StrV ''C:/buildroot/x86_64-1320-win32-seh-ucrt-rt_v11-rev0/mingw64/opt/include'',
    ''INCLUDEPY'' \<mapsto> StrV ''C:/buildroot/x86_64-1320-win32-seh-ucrt-rt_v11-rev0/mingw64/opt/include/python3.9'',
    ''INSTALL'' \<mapsto> StrV ''/usr/bin/install -c'',
    ''INSTALL_DATA'' \<mapsto> StrV ''/usr/bin/install -c -m 644'',
    ''INSTALL_PROGRAM'' \<mapsto> StrV ''/usr/bin/install -c'',
    ''INSTALL_SCRIPT'' \<mapsto> StrV ''/usr/bin/install -c'',
    ''INSTALL_SHARED'' \<mapsto> StrV ''/usr/bin/install -c -m 755'',
    ''INSTSONAME'' \<mapsto> StrV ''libpython3.9.dll.a'',
    ''IO_H'' \<mapsto> StrV ''Modules/_io/_iomodule.h'',
    ''IO_OBJS'' \<mapsto> StrV [bslash],
    ''LDCXXSHARED'' \<mapsto> StrV ''x86_64-w64-mingw32-c++ -shared -Wl,--enable-auto-image-base'',
    ''LDFLAGS'' \<mapsto> StrV (''-pipe -fno-ident '' @
        ''-L/c/buildroot/x86_64-1320-win32-seh-ucrt-rt_v11-rev0/mingw64/opt/lib '' @
        ''-L/c/buildroot/prerequisites/x86_64-zlib-static/lib '' @
        ''-L/c/buildroot/prerequisites/x86_64-w64-mingw32-static/lib '' @
        ''-LC:/buildroot/prerequisites/x86_64-zlib-static/lib '' @
        ''-LC:/buildroot/x86_64-1320-win32-seh-ucrt-rt_v11-rev0/mingw64/opt/lib''),
    ''LDLIBRARY'' \<mapsto> StrV ''libpython3.9.dll.a'',
    ''LDLIBRARYDIR'' \<mapsto> StrV '''',
    ''LDSHARED'' \<mapsto> StrV (''x86_64-w64-mingw32-gcc -shared -Wl,--enable-auto-image-base '' @
        ''-pipe -fno-ident '' @
        ''-L/c/buildroot/x86_64-1320-win32-seh-ucrt-rt_v11-rev0/mingw64/opt/lib '' @
        ''-L/c/buildroot/prerequisites/x86_64-zlib-static/lib '' @
        ''-L/c/buildroot/prerequisites/x86_64-w64-mingw32-static/lib '' @
        ''-LC:/buildroot/prerequisites/x86_64-zlib-static/lib '' @
        ''-LC:/buildroot/x86_64-1320-win32-seh-ucrt-rt_v11-rev0/mingw64/opt/lib''),
    ''LDVERSION'' \<mapsto> StrV ''3.9'',
    ''LIBC'' \<mapsto> StrV '''',
    ''LIBDEST'' \<mapsto> StrV ''C:/buildroot/x86_64-1320-win32-seh-ucrt-rt_v11-rev0/mingw64/opt/lib/python3.9'',
    ''LIBDIR'' \<mapsto> StrV ''C:/buildroot/x86_64-1320-win32-seh-ucrt-rt_v11-rev0/mingw64/opt/lib'',
    ''LIBFFI_INCLUDEDIR'' \<mapsto> StrV '''',
    ''LIBM'' \<mapsto> StrV ''-lm'',
    ''LIBOBJDIR'' \<mapsto> StrV ''Python/'',
    ''LIBOBJS'' \<mapsto> StrV '''',
    ''LIBPC'' \<mapsto> StrV ''C:/buildroot/x86_64-1320-win32-seh-ucrt-rt_v11-rev0/mingw64/opt/lib/pkgconfig'',
    ''LIBPL'' \<mapsto> StrV ''C:/buildroot/x86_64-1320-win32-seh-ucrt-rt_v11-rev0/mingw64/opt/lib/python3.9/config-3.9'',
    ''LIBPYTHON'' \<mapsto> StrV ''-lpython3.9'',
    ''LIBRARY'' \<mapsto> StrV ''libpython3.9.a'',
    ''LIBRARY_OBJS'' \<mapsto> StrV [bslash],
    ''LIBRARY_OBJS_OMIT_FROZEN'' \<mapsto> StrV [bslash],
    ''LIBS'' \<mapsto> StrV ''-lm -lversion -lshlwapi'',
    ''LIBSUBDIRS'' \<mapsto> StrV (''tkinter tkinter/test tkinter/test/test_tkinter '' @ [bslash]),
    ''LINKCC'' \<mapsto> StrV ''x86_64-w64-mingw32-gcc'',
    ''LINKFORSHARED'' \<mapsto> StrV ''-Wl,--stack,2000000'',
    ''LIPO_32BIT_FLAGS'' \<mapsto> StrV '''',
    ''LIPO_INTEL64_FLAGS'' \<mapsto> StrV '''',
    ''LLVM_PROF_ERR'' \<mapsto> StrV ''no'',
    ''LLVM_PROF_FILE'' \<mapsto> StrV '''',
    ''LLVM_PROF_MERGER'' \<mapsto> StrV ''true'',
    ''LN'' \<mapsto> StrV ''ln'',
    ''LOCALMODLIBS'' \<mapsto> StrV ''-lws2_32'',
    ''MACHDEP'' \<mapsto> StrV ''win32'',
    ''MACHDEP_OBJS'' \<mapsto> StrV ''PC/dl_nt.o'',
    ''MACHDESTLIB'' \<mapsto> StrV ''C:/buildroot/x86_64-1320-win32-seh-ucrt-rt_v11-rev0/mingw64/opt/lib/python3.9'',
    ''MACOSX_DEPLOYMENT_TARGET'' \<mapsto> StrV '''',
    ''MAINCC'' \<mapsto> StrV ''x86_64-w64-mingw32-gcc'',
    ''MAJOR_IN_MKDEV'' \<mapsto> IntV 0,
    ''MAJOR_IN_SYSMACROS'' \<mapsto> IntV 0,
    ''MAKESETUP'' \<mapsto> StrV ''../../../src/Python-3.9.10/Modules/makesetup'',
    ''MANDIR'' \<mapsto> StrV ''C:/buildroot/x86_64-1320-win32-seh-ucrt-rt_v11-rev0/mingw64/opt/share/man'',
    ''MKDIR_P'' \<mapsto> StrV ''/usr/bin/mkdir -p'',
    ''MODBUILT_NAMES'' \<mapsto> StrV (''nt  winreg  msvcrt  _winapi  errno  _sre  _codecs  '' @
        ''_weakref  _functools  _operator  _collections  _abc  '' @
        ''itertools  atexit  _signal  _stat  time  _thread  _locale  '' @
        ''_io  faulthandler  _tracemalloc  _peg_parser  _symtable  '' @
        ''xxsubtype''),
    ''MODDISABLED_NAMES'' \<mapsto> StrV '''',
    ''MODLIBS'' \<mapsto> StrV ''-lws2_32'',
    ''MODOBJS'' \<mapsto> StrV (''Modules/posixmodule.o  Modules/winreg.o  Modules/msvcrtmodule.o  '' @
        ''Modules/_winapi.o  Modules/errnomodule.o  Modules/_sre.o  '' @
        ''Modules/_codecsmodule.o  Modules/_weakref.o  '' @
        ''Modules/_functoolsmodule.o  Modules/_operator.o  '' @
        ''Modules/_collectionsmodule.o  Modules/_abc.o  '' @
        ''Modules/itertoolsmodule.o  Modules/atexitmodule.o  '' @
        ''Modules/signalmodule.o  Modules/_stat.o  Modules/timemodule.o  '' @
        ''Modules/_threadmodule.o  Modules/_localemodule.o  '' @
        ''Modules/_iomodule.o Modules/iobase.o Modules/fileio.o '' @
        ''Modules/bytesio.o Modules/bufferedio.o Modules/textio.o '' @
        ''Modules/stringio.o Modules/winconsoleio.o  '' @
        ''Modules/faulthandler.o  Modules/_tracemalloc.o  '' @
        ''Modules/_peg_parser.o  Modules/symtablemodule.o  '' @
        ''Modules/xxsubtype.o''),
    ''MODULE_OBJS'' \<mapsto> StrV [bslash],
    ''MULTIARCH'' \<mapsto> StrV '''',
    ''MULTIARCH_CPPFLAGS'' \<mapsto> StrV '''',
    ''MVWDELCH_IS_EXPRESSION'' \<mapsto> IntV 0,
    ''NCURSESW_INCLUDEDIR'' \<mapsto> StrV '''',
    ''NO_AS_NEEDED'' \<mapsto> StrV ''-Wl,--no-as-needed'',
    ''NT_THREADS'' \<mapsto> IntV 1,
    ''OBJECT_OBJS'' \<mapsto> StrV [bslash],
    ''OPENSSL_INCLUDES'' \<mapsto> StrV '''',
    ''OPENSSL_LDFLAGS'' \<mapsto> StrV '''',
    ''OPENSSL_LIBS'' \<mapsto> StrV '''',
    ''OPT'' \<mapsto> StrV ''-DNDEBUG -g -fwrapv -O3 -Wall'',
    ''OTHER_LIBTOOL_OPT'' \<mapsto> StrV '''',
    ''PACKAGE_BUGREPORT'' \<mapsto> IntV 0,
    ''PACKAGE_NAME'' \<mapsto> IntV 0,
    ''PACKAGE_STRING'' \<mapsto> IntV 0,
    ''PACKAGE_TARNAME'' \<mapsto> IntV 0,
    ''PACKAGE_URL'' \<mapsto> IntV 0,
    ''PACKAGE_VERSION'' \<mapsto> IntV 0,
    ''PARSER_HEADERS'' \<mapsto> StrV [bslash],
    ''PARSER_OBJS'' \<mapsto> StrV ([bslash] @ '' '' @ [bslash] @ '' Parser/myreadline.o Parser/parsetok.o '' @
        ''Parser/tokenizer.o''),
    ''PEGEN_HEADERS'' \<mapsto> StrV [bslash],
    ''PEGEN_OBJS'' \<mapsto> StrV [bslash],
    ''PGO_PROF_GEN_FLAG'' \<mapsto> StrV ''-fprofile-generate'',
    ''PGO_PROF_USE_FLAG'' \<mapsto> StrV ''-fprofile-use -fprofile-correction'',
    ''PLATLIBDIR'' \<mapsto> StrV ''lib'',
    ''POBJS'' \<mapsto> StrV [bslash],
    ''POSIX_SEMAPHORES_NOT_ENABLED'' \<mapsto> IntV 1,
    ''PROFILE_TASK'' \<mapsto> StrV ''-m test --pgo'',
    ''PTHREAD_KEY_T_IS_COMPATIBLE_WITH_INT'' \<mapsto> IntV 0,
    ''PTHREAD_SYSTEM_SCHED_SUPPORTED'' \<mapsto> IntV 0,
    ''PURIFY'' \<mapsto> StrV '''',
    ''PY3LIBRARY'' \<mapsto> StrV '''',
    ''PYD_PLATFORM_TAG'' \<mapsto> StrV ''mingw_x86_64_ucrt'',
    ''PYLONG_BITS_IN_DIGIT'' \<mapsto> IntV 0,
    ''PYTHON'' \<mapsto> StrV ''python.exe'',
    ''PYTHONFRAMEWORK'' \<mapsto> StrV '''',
    ''PYTHONFRAMEWORKDIR'' \<mapsto> StrV ''no-framework'',
    ''PYTHONFRAMEWORKINSTALLDIR'' \<mapsto> StrV '''',
    ''PYTHONFRAMEWORKPREFIX'' \<mapsto> StrV '''',
    ''PYTHONPATH'' \<mapsto> StrV '''',
    ''PYTHON_FOR_BUILD'' \<mapsto> StrV ''./python.exe -E'',
    ''PYTHON_HEADERS'' \<mapsto> StrV [bslash],
    ''PYTHON_OBJS'' \<mapsto> StrV [bslash],
    ''PY_BUILTIN_HASHLIB_HASHES'' \<mapsto> StrV ''"md5,sha1,sha256,sha512,sha3,blake2"'',
    ''PY_BUILTIN_MODULE_CFLAGS'' \<mapsto> StrV (''-Wno-unused-result -Wsign-compare -DNDEBUG -g '' @
        ''-fwrapv -O3 -Wall -O2 -pipe -fno-ident '' @
        ''-I/c/buildroot/x86_64-1320-win32-seh-ucrt-rt_v11-rev0/mingw64/opt/include '' @
        ''-I/c/buildroot/prerequisites/x86_64-zlib-static/include '' @
        ''-I/c/buildroot/prerequisites/x86_64-w64-mingw32-static/include '' @
        ''-D__USE_MINGW_ANSI_STDIO=1 -std=c99 -Wextra '' @
        ''-Wno-unused-result -Wno-unused-parameter '' @
        ''-Wno-missing-field-initializers '' @
        ''-Wstrict-prototypes '' @
        ''-Werror=implicit-function-declaration '' @
        ''-fvisibility=hidden -D_WIN32_WINNT=0x0601 '' @
        ''-DMS_DLL_ID='"3.9"' -fprofile-use '' @
        ''-fprofile-correction '' @
        ''-I../../../src/Python-3.9.10/Include/internal '' @
        ''-IObjects -IInclude -IPython -I. '' @
        ''-I../../../src/Python-3.9.10/Include '' @
        ''-I../../../src/Python-3.9.10/PC  '' @
        ''-I/c/buildroot/x86_64-1320-win32-seh-ucrt-rt_v11-rev0/mingw64/opt/include '' @
        ''-I/c/buildroot/prerequisites/x86_64-zlib-static/include '' @
        ''-I/c/buildroot/prerequisites/x86_64-w64-mingw32-static/include '' @
        ''-IC:/buildroot/x86_64-1320-win32-seh-ucrt-rt_v11-rev0/mingw64/opt/include '' @
        ''-IC:/buildroot/x86_64-1320-win32-seh-ucrt-rt_v11-rev0/mingw64/opt/include/ncursesw '' @
        ''-IC:/buildroot/prerequisites/x86_64-zlib-static/include '' @
        ''-I. -DPy_BUILD_CORE_BUILTIN''),
    ''PY_CFLAGS'' \<mapsto> StrV (''-Wno-unused-result -Wsign-compare -DNDEBUG -g -fwrapv -O3 -Wall '' @
        ''-O2 -pipe -fno-ident '' @
        ''-I/c/buildroot/x86_64-1320-win32-seh-ucrt-rt_v11-rev0/mingw64/opt/include '' @
        ''-I/c/buildroot/prerequisites/x86_64-zlib-static/include '' @
        ''-I/c/buildroot/prerequisites/x86_64-w64-mingw32-static/include '' @
        ''-D__USE_MINGW_ANSI_STDIO=1''),
    ''PY_CFLAGS_NODIST'' \<mapsto> StrV (''-std=c99 -Wextra -Wno-unused-result '' @
        ''-Wno-unused-parameter -Wno-missing-field-initializers '' @
        ''-Wstrict-prototypes '' @
        ''-Werror=implicit-function-declaration '' @
        ''-fvisibility=hidden -D_WIN32_WINNT=0x0601 '' @
        ''-DMS_DLL_ID='"3.9"' -fprofile-use -fprofile-correction '' @
        ''-I../../../src/Python-3.9.10/Include/internal''),
    ''PY_COERCE_C_LOCALE'' \<mapsto> IntV 0,
    ''PY_CORE_CFLAGS'' \<mapsto> StrV (''-Wno-unused-result -Wsign-compare -DNDEBUG -g -fwrapv -O3 '' @
        ''-Wall -O2 -pipe -fno-ident '' @
        ''-I/c/buildroot/x86_64-1320-win32-seh-ucrt-rt_v11-rev0/mingw64/opt/include '' @
        ''-I/c/buildroot/prerequisites/x86_64-zlib-static/include '' @
        ''-I/c/buildroot/prerequisites/x86_64-w64-mingw32-static/include '' @
        ''-D__USE_MINGW_ANSI_STDIO=1 -std=c99 -Wextra '' @
        ''-Wno-unused-result -Wno-unused-parameter '' @
        ''-Wno-missing-field-initializers -Wstrict-prototypes '' @
        ''-Werror=implicit-function-declaration -fvisibility=hidden '' @
        ''-D_WIN32_WINNT=0x0601 -DMS_DLL_ID='"3.9"' -fprofile-use '' @
        ''-fprofile-correction '' @
        ''-I../../../src/Python-3.9.10/Include/internal -IObjects '' @
        ''-IInclude -IPython -I. '' @
        ''-I../../../src/Python-3.9.10/Include '' @
        ''-I../../../src/Python-3.9.10/PC  '' @
        ''-I/c/buildroot/x86_64-1320-win32-seh-ucrt-rt_v11-rev0/mingw64/opt/include '' @
        ''-I/c/buildroot/prerequisites/x86_64-zlib-static/include '' @
        ''-I/c/buildroot/prerequisites/x86_64-w64-mingw32-static/include '' @
        ''-IC:/buildroot/x86_64-1320-win32-seh-ucrt-rt_v11-rev0/mingw64/opt/include '' @
        ''-IC:/buildroot/x86_64-1320-win32-seh-ucrt-rt_v11-rev0/mingw64/opt/include/ncursesw '' @
        ''-IC:/buildroot/prerequisites/x86_64-zlib-static/include '' @
        ''-I. -DPy_BUILD_CORE''),
    ''PY_CORE_LDFLAGS'' \<mapsto> StrV (''-pipe -fno-ident '' @
        ''-L/c/buildroot/x86_64-1320-win32-seh-ucrt-rt_v11-rev0/mingw64/opt/lib '' @
        ''-L/c/buildroot/prerequisites/x86_64-zlib-static/lib '' @
        ''-L/c/buildroot/prerequisites/x86_64-w64-mingw32-static/lib '' @
        ''-LC:/buildroot/prerequisites/x86_64-zlib-static/lib '' @
        ''-LC:/buildroot/x86_64-1320-win32-seh-ucrt-rt_v11-rev0/mingw64/opt/lib''),
    ''PY_CPPFLAGS'' \<mapsto> StrV (''-IObjects -IInclude -IPython -I. '' @
        ''-I../../../src/Python-3.9.10/Include '' @
        ''-I../../../src/Python-3.9.10/PC  '' @
        ''-I/c/buildroot/x86_64-1320-win32-seh-ucrt-rt_v11-rev0/mingw64/opt/include '' @
        ''-I/c/buildroot/prerequisites/x86_64-zlib-static/include '' @
        ''-I/c/buildroot/prerequisites/x86_64-w64-mingw32-static/include '' @
        ''-IC:/buildroot/x86_64-1320-win32-seh-ucrt-rt_v11-rev0/mingw64/opt/include '' @
        ''-IC:/buildroot/x86_64-1320-win32-seh-ucrt-rt_v11-rev0/mingw64/opt/include/ncursesw '' @
        ''-IC:/buildroot/prerequisites/x86_64-zlib-static/include -I.''),
    ''PY_FORMAT_SIZE_T'' \<mapsto> StrV ''"z"'',
    ''PY_LDFLAGS'' \<mapsto> StrV (''-pipe -fno-ident '' @
        ''-L/c/buildroot/x86_64-1320-win32-seh-ucrt-rt_v11-rev0/mingw64/opt/lib '' @
        ''-L/c/buildroot/prerequisites/x86_64-zlib-static/lib '' @
        ''-L/c/buildroot/prerequisites/x86_64-w64-mingw32-static/lib '' @
        ''-LC:/buildroot/prerequisites/x86_64-zlib-static/lib '' @
        ''-LC:/buildroot/x86_64-1320-win32-seh-ucrt-rt_v11-rev0/mingw64/opt/lib''),
    ''PY_LDFLAGS_NODIST'' \<mapsto> StrV '''',
    ''PY_SSL_DEFAULT_CIPHERS'' \<mapsto> IntV 1,
    ''PY_SSL_DEFAULT_CIPHER_STRING'' \<mapsto> IntV 0,
    ''PY_STDMODULE_CFLAGS'' \<mapsto> StrV (''-Wno-unused-result -Wsign-compare -DNDEBUG -g -fwrapv '' @
        ''-O3 -Wall -O2 -pipe -fno-ident '' @
        ''-I/c/buildroot/x86_64-1320-win32-seh-ucrt-rt_v11-rev0/mingw64/opt/include '' @
        ''-I/c/buildroot/prerequisites/x86_64-zlib-static/include '' @
        ''-I/c/buildroot/prerequisites/x86_64-w64-mingw32-static/include '' @
        ''-D__USE_MINGW_ANSI_STDIO=1 -std=c99 -Wextra '' @
        ''-Wno-unused-result -Wno-unused-parameter '' @
        ''-Wno-missing-field-initializers -Wstrict-prototypes '' @
        ''-Werror=implicit-function-declaration '' @
        ''-fvisibility=hidden -D_WIN32_WINNT=0x0601 '' @
        ''-DMS_DLL_ID='"3.9"' -fprofile-use '' @
        ''-fprofile-correction '' @
        ''-I../../../src/Python-3.9.10/Include/internal '' @
        ''-IObjects -IInclude -IPython -I. '' @
        ''-I../../../src/Python-3.9.10/Include '' @
        ''-I../../../src/Python-3.9.10/PC  '' @
        ''-I/c/buildroot/x86_64-1320-win32-seh-ucrt-rt_v11-rev0/mingw64/opt/include '' @
        ''-I/c/buildroot/prerequisites/x86_64-zlib-static/include '' @
        ''-I/c/buildroot/prerequisites/x86_64-w64-mingw32-static/include '' @
        ''-IC:/buildroot/x86_64-1320-win32-seh-ucrt-rt_v11-rev0/mingw64/opt/include '' @
        ''-IC:/buildroot/x86_64-1320-win32-seh-ucrt-rt_v11-rev0/mingw64/opt/include/ncursesw '' @
        ''-IC:/buildroot/prerequisites/x86_64-zlib-static/include '' @
        ''-I.''),
    ''Py_DEBUG'' \<mapsto> IntV 0,
    ''Py_ENABLE_SHARED'' \<mapsto> IntV 1,
    ''Py_HASH_ALGORITHM'' \<mapsto> IntV 0,
    ''Py_TRACE_REFS'' \<mapsto> IntV 0,
    ''QUICKTESTOPTS'' \<mapsto> StrV (''-x test_subprocess test_io test_lib2to3 '' @ [bslash]),
    ''RCFLAGS'' \<mapsto> StrV ''-DFIELD3=10150 -O COFF --target=pe-x86-64'',
    ''READELF'' \<mapsto> StrV ''readelf'',
    ''RESSRCDIR'' \<mapsto> StrV ''Mac/Resources/framework'',
    ''RETSIGTYPE'' \<mapsto> StrV ''void'',
    ''RUNSHARED'' \<mapsto> StrV '''',
    ''SCRIPTDIR'' \<mapsto> StrV ''C:/buildroot/x86_64-1320-win32-seh-ucrt-rt_v11-rev0/mingw64/opt/lib'',
    ''SETPGRP_HAVE_ARG'' \<mapsto> IntV 0,
    ''SHELL'' \<mapsto> StrV ''/bin/sh'',
    ''SHLIBS'' \<mapsto> StrV ''-lm -lversion -lshlwapi'',
    ''SHLIB_SUFFIX'' \<mapsto> StrV ''.pyd'',
    ''SHM_NEEDS_LIBRT'' \<mapsto> IntV 0,
    ''SIGNED_RIGHT_SHIFT_ZERO_FILLS'' \<mapsto> IntV 0,
    ''SITEPATH'' \<mapsto> StrV '''',
    ''SIZEOF_DOUBLE'' \<mapsto> IntV 8,
    ''SIZEOF_FLOAT'' \<mapsto> IntV 4,
    ''SIZEOF_FPOS_T'' \<mapsto> IntV 8,
    ''SIZEOF_INT'' \<mapsto> IntV 4,
    ''SIZEOF_LONG'' \<mapsto> IntV 4,
    ''SIZEOF_LONG_DOUBLE'' \<mapsto> IntV 16,
    ''SIZEOF_LONG_LONG'' \<mapsto> IntV 8,
    ''SIZEOF_OFF_T'' \<mapsto> IntV 8,
    ''SIZEOF_PID_T'' \<mapsto> IntV 8,
    ''SIZEOF_PTHREAD_KEY_T'' \<mapsto> IntV 0,
    ''SIZEOF_PTHREAD_T'' \<mapsto> IntV 0,
    ''SIZEOF_SHORT'' \<mapsto> IntV 2,
    ''SIZEOF_SIZE_T'' \<mapsto> IntV 8,
    ''SIZEOF_TIME_T'' \<mapsto> IntV 8,
    ''SIZEOF_UINTPTR_T'' \<mapsto> IntV 8,
    ''SIZEOF_VOID_P'' \<mapsto> IntV 8,
    ''SIZEOF_WCHAR_T'' \<mapsto> IntV 2,
    ''SIZEOF__BOOL'' \<mapsto> IntV 1,
    ''SOABI'' \<mapsto> StrV ''cpython-39'',
    ''SRCDIRS'' \<mapsto> StrV (''Parser Parser/pegen Objects Python Modules Modules/_io Programs '' @
        ''PC''),
    ''SRC_GDB_HOOKS'' \<mapsto> StrV ''../../../src/Python-3.9.10/Tools/gdb/libpython.py'',
    ''STDC_HEADERS'' \<mapsto> IntV 1,
    ''STRICT_SYSV_CURSES'' \<mapsto> StrV ''/* Don't use ncurses extensions */'',
    ''STRIPFLAG'' \<mapsto> StrV ''-s'',
    ''SUBDIRS'' \<mapsto> StrV '''',
    ''SUBDIRSTOO'' \<mapsto> StrV ''Include Lib Misc'',
    ''SYSLIBS'' \<mapsto> StrV ''-lm'',
    ''SYS_SELECT_WITH_SYS_TIME'' \<mapsto> IntV 0,
    ''TCLTK_INCLUDES'' \<mapsto> StrV '''',
    ''TCLTK_LIBS'' \<mapsto> StrV '''',
    ''TESTOPTS'' \<mapsto> StrV '''',
    ''TESTPATH'' \<mapsto> StrV '''',
    ''TESTPYTHON'' \<mapsto> StrV ''./python.exe'',
    ''TESTPYTHONOPTS'' \<mapsto> StrV '''',
    ''TESTRUNNER'' \<mapsto> StrV (''./python.exe '' @
        ''../../../src/Python-3.9.10/Tools/scripts/run_tests.py''),
    ''TESTTIMEOUT'' \<mapsto> IntV 1200,
    ''TIMEMODULE_LIB'' \<mapsto> IntV 0,
    ''TIME_WITH_SYS_TIME'' \<mapsto> IntV 1,
    ''TM_IN_SYS_TIME'' \<mapsto> IntV 0,
    ''TZPATH'' \<mapsto> StrV ''/usr/share/zoneinfo:/usr/lib/zoneinfo:/usr/share/lib/zoneinfo:/etc/zoneinfo'',
    ''UNICODE_DEPS'' \<mapsto> StrV [bslash],
    ''UNIVERSALSDK'' \<mapsto> StrV '''',
    ''UPDATE_FILE'' \<mapsto> StrV (''python3 '' @
        ''../../../src/Python-3.9.10/Tools/scripts/update_file.py''),
    ''USE_COMPUTED_GOTOS'' \<mapsto> IntV 0,
    ''VENVLAUNCHERDIR'' \<mapsto> StrV ''C:/buildroot/x86_64-1320-win32-seh-ucrt-rt_v11-rev0/mingw64/opt/lib/python3.9/venv/scripts/nt'',
    ''VERSION'' \<mapsto> StrV ''3.9'',
    ''VPATH'' \<mapsto> StrV ''C:/buildroot/src/Python-3.9.10'',
    ''VPATH_b2h'' \<mapsto> StrV ''C:/buildroot/src/Python-3.9.10'',
    ''WINDOW_HAS_FLAGS'' \<mapsto> IntV 0,
    ''WINDRES'' \<mapsto> StrV ''windres'',
    ''WITH_DECIMAL_CONTEXTVAR'' \<mapsto> IntV 1,
    ''WITH_DOC_STRINGS'' \<mapsto> IntV 1,
    ''WITH_DTRACE'' \<mapsto> IntV 0,
    ''WITH_DYLD'' \<mapsto> IntV 0,
    ''WITH_LIBINTL'' \<mapsto> IntV 0,
    ''WITH_NEXT_FRAMEWORK'' \<mapsto> IntV 0,
    ''WITH_PYMALLOC'' \<mapsto> IntV 1,
    ''WITH_VALGRIND'' \<mapsto> IntV 0,
    ''X87_DOUBLE_ROUNDING'' \<mapsto> IntV 0,
    ''XMLLIBSUBDIRS'' \<mapsto> StrV ''xml xml/dom xml/etree xml/parsers xml/sax'',
    ''abs_builddir'' \<mapsto> StrV ''C:/buildroot/x86_64-1320-win32-seh-ucrt-rt_v11-rev0/build/Python-3.9.10'',
    ''abs_builddir_b2h'' \<mapsto> StrV ''C:/buildroot/x86_64-1320-win32-seh-ucrt-rt_v11-rev0/build/Python-3.9.10'',
    ''abs_srcdir'' \<mapsto> StrV ''C:/buildroot/src/Python-3.9.10'',
    ''abs_srcdir_b2h'' \<mapsto> StrV ''C:/buildroot/src/Python-3.9.10'',
    ''datarootdir'' \<mapsto> StrV ''C:/buildroot/x86_64-1320-win32-seh-ucrt-rt_v11-rev0/mingw64/opt/share'',
    ''exec_prefix'' \<mapsto> StrV ''C:/buildroot/x86_64-1320-win32-seh-ucrt-rt_v11-rev0/mingw64/opt'',
    ''prefix'' \<mapsto> StrV ''C:/buildroot/x86_64-1320-win32-seh-ucrt-rt_v11-rev0/mingw64/opt'',
    ''prefix_b2h'' \<mapsto> StrV ''C:/buildroot/x86_64-1320-win32-seh-ucrt-rt_v11-rev0/mingw64/opt'',
    ''srcdir'' \<mapsto> StrV ''C:/buildroot/src/Python-3.9.10'',
    ''srcdir_b2h'' \<mapsto> StrV ''C:/buildroot/src/Python-3.9.10''
  ]\<close>

section \<open>Vocabulary of the properties\<close>

text \<open>The entry of \<open>k\<close> is present and is a string.\<close>

definition is_str_at :: "dict \<Rightarrow> string \<Rightarrow> bool" where
  "is_str_at d k = (case d k of Some (StrV s) \<Rightarrow> True | _ \<Rightarrow> False)"

text \<open>Every key of the rewrite list is present with a string value.\<close>

definition listed_strings :: "dict \<Rightarrow> bool" where
  "listed_strings d = list_all (is_str_at d) keys_to_replace"

text \<open>Running the pass a second time on the result of the first.\<close>

definition normalize_twice :: "string \<Rightarrow> string \<Rightarrow> dict \<Rightarrow> error + dict" where
  "normalize_twice old new d =
     (case normalize_pass old new d of Inl e \<Rightarrow> Inl e | Inr d1 \<Rightarrow> normalize_pass old new d1)"

text \<open>A query \<^verbatim>\<open>d[k]\<close> on the outcome of a load or pass.\<close>

definition query :: "error + dict \<Rightarrow> string \<Rightarrow> error + pyval" where
  "query r k = (case r of Inl e \<Rightarrow> Inl e | Inr d \<Rightarrow> getitem d k)"

text \<open>\<^verbatim>\<open>sep.join(segs)\<close>: the segments with \<open>sep\<close> between neighbours.\<close>

fun join :: "'a list \<Rightarrow> 'a list list \<Rightarrow> 'a list" where
  "join sep [] = []"
| "join sep [s] = s"
| "join sep (s # t # ss) = s @ sep @ join sep (t # ss)"

text \<open>
  The segments \<open>segs\<close> cut a string exactly at its occurrences of \<open>old\<close>, read from the
  left: in every segment but the last, followed by \<open>old\<close>, the first occurrence of \<open>old\<close>
  is the one at the end; the last segment holds none.
\<close>

fun separated :: "'a list \<Rightarrow> 'a list list \<Rightarrow> bool" where
  "separated old [] = True"
| "separated old [s] = (\<not> sublist old s)"
| "separated old (s # t # ss) = (\<not> sublist old (butlast (s @ old)) \<and> separated old (t # ss))"

text \<open>Some non-empty end of \<open>a\<close> is a start of \<open>b\<close>.\<close>

definition overlaps_end :: "'a list \<Rightarrow> 'a list \<Rightarrow> bool" where
  "overlaps_end a b = (\<exists>z \<in> set (suffixes a). z \<noteq> [] \<and> prefix z b)"

text \<open>
  Two strings are apart when neither occurs inside the other and no non-empty end of one is
  a start of the other.
\<close>

definition apart :: "'a list \<Rightarrow> 'a list \<Rightarrow> bool" where
  "apart old new =
     (\<not> sublist old new \<and> \<not> sublist new old \<and> \<not> overlaps_end old new \<and> \<not> overlaps_end new old)"

text \<open>
  No occurrence of \<open>old\<close> can arise at a seam between the segments \<open>segs\<close> and a string
  put between them: no segment but the last ends with a non-empty start of \<open>old\<close>, no
  segment but the first starts with a non-empty end of \<open>old\<close>, and no inner segment lies
  inside \<open>old\<close>.
\<close>

fun seam_free :: "'a list \<Rightarrow> 'a list list \<Rightarrow> bool" where
  "seam_free old [] = True"
| "seam_free old [s] = True"
| "seam_free old (s # t # ss) =
     (\<not> overlaps_end s old \<and> \<not> overlaps_end old t \<and> (ss \<noteq> [] \<longrightarrow> \<not> sublist t old) \<and>
      seam_free old (t # ss))"

section \<open>A small mapping for the scenarios of the specification\<close>

text \<open>
  Every listed key is present; the reference entry is \<^verbatim>\<open>/opt/app/bin\<close>.  The other named
  entries are the values of the specification's scenarios, a value where the old prefix is
  not at the start, a value whose rewrite with the new prefix \<^verbatim>\<open>/opt\<close> recreates the old
  prefix, a value that holds the old prefix in upper and in lower case, and two entries
  outside the list.
\<close>

definition scenario_vars :: dict where
  "scenario_vars =
     (\<lambda>k. if k \<in> set keys_to_replace then Some (StrV ''/opt/app'') else None)
     (''BINDIR'' \<mapsto> StrV ''/opt/app/bin'',
      ''LIBDEST'' \<mapsto> StrV ''/opt/app/lib/app3.9'',
      ''INCLUDEPY'' \<mapsto> StrV ''/opt/app/include -I/opt/app/include2'',
      ''CONFINCLUDEPY'' \<mapsto> StrV ''-I/opt/app/include'',
      ''LIBDIR'' \<mapsto> StrV ''/opt/app/app/lib'',
      ''MANDIR'' \<mapsto> StrV ''/OPT/APP/man:/opt/app/man'',
      ''TZPATH'' \<mapsto> StrV ''/usr/share/zoneinfo'',
      ''CC'' \<mapsto> StrV ''gcc'',
      ''SIZEOF_INT'' \<mapsto> IntV 4)"

section \<open>Facts about string replacement\<close>

lemma replace_from_no_occurrence:
  "\<not> sublist old s \<Longrightarrow> replace_from old new s = s"
proof (induction s)
  case Nil
  show ?case by simp
next
  case (Cons c cs)
  from Cons.prems have np: "\<not> prefix old (c # cs)" and ns: "\<not> sublist old cs"
    by (auto simp: sublist_Cons_right)
  from Cons.IH [OF ns] np show ?case by simp
qed

lemma replace_from_at_start:
  assumes "old \<noteq> []"
  shows "replace_from old new (old @ rest) = new @ replace_from old new rest"
proof -
  from assms obtain c cs where o: "old = c # cs" by (cases old) auto
  have "replace_from old new (c # (cs @ rest)) =
          new @ replace_from old new (drop (length old) (c # (cs @ rest)))"
    using assms by (simp add: o)
  then show ?thesis by (simp add: o)
qed

lemma replace_from_skip:
  assumes "old \<noteq> []" and "\<not> sublist old (butlast (seg @ old))"
  shows "replace_from old new (seg @ old @ rest) = seg @ new @ replace_from old new rest"
  using assms(2)
proof (induction seg)
  case Nil
  show ?case using replace_from_at_start [OF assms(1)] by simp
next
  case (Cons c seg)
  let ?front = "c # butlast (seg @ old)"
  have bl: "butlast ((c # seg) @ old) = ?front"
    using assms(1) by simp
  have whole: "c # seg @ old @ rest = ?front @ (last old # rest)"
    using assms(1) append_butlast_last_id [of "seg @ old"] by (simp add: butlast_append)
  have np: "\<not> prefix old (c # seg @ old @ rest)"
  proof
    assume p: "prefix old (c # seg @ old @ rest)"
    have "length old \<le> length ?front" using assms(1) by simp
    with p whole have "prefix old ?front"
      by (metis prefix_length_prefix prefixI)
    then have "sublist old ?front" by (rule prefix_imp_sublist)
    with Cons.prems bl show False by simp
  qed
  have ns: "\<not> sublist old (butlast (seg @ old))"
    using Cons.prems bl by (simp add: sublist_Cons_right)
  have "replace_from old new ((c # seg) @ old @ rest) = c # replace_from old new (seg @ old @ rest)"
    using np by simp
  with Cons.IH [OF ns] show ?case by simp
qed

lemma replace_from_join:
  "old \<noteq> [] \<Longrightarrow> separated old segs \<Longrightarrow> replace_from old new (join old segs) = join new segs"
proof (induction old segs rule: join.induct)
  case (1 sep)
  show ?case by simp
next
  case (2 sep s)
  then show ?case by (simp add: replace_from_no_occurrence)
next
  case (3 sep s t ss)
  from 3 have ih: "replace_from sep new (join sep (t # ss)) = join new (t # ss)"
    and first: "\<not> sublist sep (butlast (s @ sep))" by simp_all
  from replace_from_skip [OF "3.prems"(1) first, of new "join sep (t # ss)"] ih
  show ?case by simp
qed

lemma overlaps_endI:
  "z \<noteq> [] \<Longrightarrow> suffix z a \<Longrightarrow> prefix z b \<Longrightarrow> overlaps_end a b"
  by (auto simp: overlaps_end_def)

lemma apart_nonempty: "apart old new \<Longrightarrow> old \<noteq> [] \<and> new \<noteq> []"
  by (auto simp: apart_def)

lemma replace_from_prefix_back:
  assumes ap: "apart old new"
  shows "suffix z old \<Longrightarrow> prefix z (replace_from old new s) \<Longrightarrow> prefix z s"
proof (induction s arbitrary: z)
  case Nil
  then show ?case by simp
next
  case (Cons c cs)
  show ?case
  proof (cases "z = []")
    case True
    then show ?thesis by simp
  next
    case zne: False
    show ?thesis
    proof (cases "old \<noteq> [] \<and> prefix old (c # cs)")
      case True
      then have "prefix z (new @ replace_from old new (drop (length old) (c # cs)))"
        using Cons.prems(2) by simp
      then consider "prefix z new" | us where "z = new @ us"
        by (auto simp: prefix_append)
      then show ?thesis
      proof cases
        case 1
        with zne Cons.prems(1) have "overlaps_end old new" by (auto intro: overlaps_endI)
        with ap show ?thesis by (simp add: apart_def)
      next
        case 2
        then have "sublist new z" by simp
        with Cons.prems(1) have "sublist new old"
          by (meson sublist_order.order_trans suffix_imp_sublist)
        with ap show ?thesis by (simp add: apart_def)
      qed
    next
      case False
      then have r: "replace_from old new (c # cs) = c # replace_from old new cs" by auto
      from zne obtain z' where z: "z = c # z'" and p': "prefix z' (replace_from old new cs)"
        using Cons.prems(2) r by (cases z) auto
      have "suffix z' old" using Cons.prems(1) z by (meson suffix_ConsD)
      from Cons.IH [OF this p'] z show ?thesis by simp
    qed
  qed
qed

lemma replace_from_no_prefix:
  assumes ap: "apart old new"
  shows "\<not> prefix old (replace_from old new s)"
proof
  assume p: "prefix old (replace_from old new s)"
  from ap have one: "old \<noteq> []" by (simp add: apart_nonempty)
  from replace_from_prefix_back [OF ap _ p] have ps: "prefix old s" by simp
  then obtain rest where s: "s = old @ rest" by (auto simp: prefix_def)
  from p have "prefix old (new @ replace_from old new rest)"
    by (simp add: s replace_from_at_start [OF one])
  then consider "prefix old new" | us where "old = new @ us"
    by (auto simp: prefix_append)
  then show False
  proof cases
    case 1
    then have "sublist old new" by (rule prefix_imp_sublist)
    with ap show False by (simp add: apart_def)
  next
    case 2
    then have "sublist new old" by simp
    with ap show False by (simp add: apart_def)
  qed
qed

lemma replace_from_removes:
  "apart old new \<Longrightarrow> \<not> sublist old (replace_from old new s)"
proof (induction old new s rule: replace_from.induct)
  case (1 old new)
  then show ?case by (simp add: apart_nonempty)
next
  case (2 old new c cs)
  note ap = "2.prems"
  show ?case
  proof (cases "old \<noteq> [] \<and> prefix old (c # cs)")
    case True
    let ?R = "replace_from old new (drop (length old) (c # cs))"
    from "2.IH"(1) [OF True ap] have ih: "\<not> sublist old ?R" .
    have eq: "replace_from old new (c # cs) = new @ ?R" using True by simp
    show ?thesis
    proof
      assume "sublist old (replace_from old new (c # cs))"
      then consider "sublist old new" | "sublist old ?R"
        | xs1 xs2 where "old = xs1 @ xs2" "suffix xs1 new" "prefix xs2 ?R"
        unfolding eq sublist_append by blast
      then show False
      proof cases
        case 1
        with ap show False by (simp add: apart_def)
      next
        case 2
        with ih show False by simp
      next
        case 3
        show False
        proof (cases "xs1 = []")
          case True
          with 3 have "sublist old ?R" by simp
          with ih show False by simp
        next
          case False
          from 3(1) have "prefix xs1 old" by simp
          with False 3(2) have "overlaps_end new old" by (auto intro: overlaps_endI)
          with ap show False by (simp add: apart_def)
        qed
      qed
    qed
  next
    case False
    from "2.IH"(2) [OF False ap] have ih: "\<not> sublist old (replace_from old new cs)" .
    have eq: "replace_from old new (c # cs) = c # replace_from old new cs" using False by auto
    from replace_from_no_prefix [OF ap, of "c # cs"] ih
    show ?thesis unfolding eq by (simp add: sublist_Cons_right)
  qed
qed

text \<open>Occurrences at the seams of the joined result.\<close>

lemma overlaps_end_Nil [simp]: "\<not> overlaps_end [] b"
  by (simp add: overlaps_end_def)

lemma overlaps_end_Cons:
  "overlaps_end (x # xs) b \<longleftrightarrow> prefix (x # xs) b \<or> overlaps_end xs b"
  by (auto simp: overlaps_end_def)

lemma overlaps_end_iff:
  "overlaps_end a b \<longleftrightarrow> (\<exists>z. z \<noteq> [] \<and> suffix z a \<and> prefix z b)"
  by (auto simp: overlaps_end_def)

lemma sublist_append_cases:
  assumes "sublist xs (ys @ zs)"
  obtains "sublist xs ys" | "sublist xs zs"
  | x y where "xs = x @ y" "x \<noteq> []" "y \<noteq> []" "suffix x ys" "prefix y zs"
proof -
  from assms consider "sublist xs ys" | "sublist xs zs"
    | x y where "xs = x @ y" "suffix x ys" "prefix y zs"
    unfolding sublist_append by blast
  then show thesis
  proof cases
    case 1 then show ?thesis by (rule that(1))
  next
    case 2 then show ?thesis by (rule that(2))
  next
    case 3
    show ?thesis
    proof (cases "x = []")
      case True
      with 3 have "sublist xs zs" by simp
      then show ?thesis by (rule that(2))
    next
      case xne: False
      show ?thesis
      proof (cases "y = []")
        case True
        with 3 have "sublist xs ys" by simp
        then show ?thesis by (rule that(1))
      next
        case False
        with 3 xne show ?thesis by (intro that(3)) auto
      qed
    qed
  qed
qed

lemma separated_head_free:
  "old \<noteq> [] \<Longrightarrow> separated old (s # ss) \<Longrightarrow> \<not> sublist old s"
proof (cases ss)
  case Nil
  assume "separated old (s # ss)"
  with Nil show ?thesis by simp
next
  case (Cons t ts)
  assume one: "old \<noteq> []" and "separated old (s # ss)"
  with Cons have "\<not> sublist old (butlast (s @ old))" by simp
  moreover have "butlast (s @ old) = s @ butlast old" using one by (simp add: butlast_append)
  ultimately show ?thesis
    by (metis sublist_order.order_trans sublist_append_rightI)
qed

lemma join_seam_free:
  "\<not> sublist old new \<Longrightarrow> separated old segs \<Longrightarrow> seam_free old segs \<Longrightarrow>
   \<not> sublist old (join new segs)"
proof (induction new segs rule: join.induct)
  case (1 sep)
  then show ?case by auto
next
  case (2 sep s)
  then show ?case by simp
next
  case (3 sep s t ss)
  from "3.prems"(1) have one: "old \<noteq> []" by auto
  let ?tail = "join sep (t # ss)"
  from 3 have ih: "\<not> sublist old ?tail" by simp
  from "3.prems"(3) have s_old: "\<not> overlaps_end s old" and old_t: "\<not> overlaps_end old t"
    and mid: "ss \<noteq> [] \<Longrightarrow> \<not> sublist t old" by simp_all
  from separated_head_free [OF one "3.prems"(2)] have s_free: "\<not> sublist old s" .
  have no_suffix_start: "\<not> prefix y ?tail" if y: "y \<noteq> []" "suffix y old" for y
  proof
    assume p: "prefix y ?tail"
    obtain rest where tail: "?tail = t @ rest" and last: "ss = [] \<Longrightarrow> rest = []"
      by (cases ss) auto
    from p tail consider "prefix y t" | us where "y = t @ us" "prefix us rest"
      by (auto simp: prefix_append)
    then show False
    proof cases
      case 1
      with y old_t show False by (auto simp: overlaps_end_iff)
    next
      case 2
      show False
      proof (cases "ss = []")
        case True
        with last 2 have "prefix y t" by simp
        with y old_t show False by (auto simp: overlaps_end_iff)
      next
        case False
        from 2(1) have "sublist t y" by simp
        with y(2) have "sublist t old"
          by (meson sublist_order.order_trans suffix_imp_sublist)
        with mid [OF False] show False by simp
      qed
    qed
  qed
  have second: "\<not> sublist old (sep @ ?tail)"
  proof
    assume "sublist old (sep @ ?tail)"
    then show False
    proof (cases rule: sublist_append_cases)
      case 1
      with "3.prems"(1) show False by simp
    next
      case 2
      with ih show False by simp
    next
      case (3 x y)
      from 3(1) have "suffix y old" by (simp add: suffix_def)
      from no_suffix_start [OF 3(3) this] 3(5) show False by simp
    qed
  qed
  show ?case
  proof
    assume "sublist old (join sep (s # t # ss))"
    then have "sublist old (s @ (sep @ ?tail))" by simp
    then show False
    proof (cases rule: sublist_append_cases)
      case 1
      with s_free show False by simp
    next
      case 2
      with second show False by simp
    next
      case (3 x y)
      from 3(1) have "prefix x old" by simp
      with 3(2,4) s_old show False by (auto simp: overlaps_end_iff)
    qed
  qed
qed

lemma replace_seam_free:
  assumes "\<not> sublist old new" and "v = join old segs"
    and "separated old segs" and "seam_free old segs"
  shows "\<not> sublist old (replace v old new)"
proof -
  from assms(1) have one: "old \<noteq> []" by auto
  from replace_from_join [OF one assms(3)] assms(2)
  have "replace v old new = join new segs" by (simp add: replace_def one)
  with join_seam_free [OF assms(1,3,4)] show ?thesis by simp
qed

text \<open>Rules that decide a match on literals by the first differing character.\<close>

lemma prefix_Cons_same: "prefix (x # xs) (x # ys) \<longleftrightarrow> prefix xs ys"
  by simp

lemma prefix_Cons_diff: "x \<noteq> y \<Longrightarrow> prefix (x # xs) (y # ys) \<longleftrightarrow> False"
  by simp

lemma replace_no_occurrence:
  "\<not> sublist old s \<Longrightarrow> replace s old new = s"
  by (auto simp: replace_def replace_from_no_occurrence)

lemma replace_removes:
  "apart old new \<Longrightarrow> \<not> sublist old (replace s old new)"
  by (simp add: replace_def apart_nonempty replace_from_removes)

lemma replace_whole: "old \<noteq> [] \<Longrightarrow> replace old old new = new"
  using replace_from_at_start [of old new "[]"] by (simp add: replace_def)

section \<open>Facts about the loop\<close>

lemma is_str_at_iff: "is_str_at d k \<longleftrightarrow> (\<exists>s. d k = Some (StrV s))"
  by (auto simp: is_str_at_def split: option.splits pyval.splits)

lemma loop_step:
  "d key = Some (StrV s) \<Longrightarrow>
   normalize_loop (key # keys) old new d =
     normalize_loop keys old new (d(key \<mapsto> StrV (replace s old new)))"
  by (simp add: getitem_def py_replace_def)

lemma loop_step_success:
  assumes "normalize_loop (key # keys) old new d = Inr d'"
  obtains s where "d key = Some (StrV s)"
    and "normalize_loop keys old new (d(key \<mapsto> StrV (replace s old new))) = Inr d'"
  using assms
  by (auto simp: getitem_def py_replace_def split: option.splits pyval.splits)

lemma loop_frame:
  "normalize_loop keys old new d = Inr d' \<Longrightarrow> k \<notin> set keys \<Longrightarrow> d' k = d k"
proof (induction keys arbitrary: d)
  case Nil
  then show ?case by simp
next
  case (Cons key keys)
  from Cons.prems(1) obtain s where
    run: "normalize_loop keys old new (d(key \<mapsto> StrV (replace s old new))) = Inr d'"
    by (rule loop_step_success)
  from Cons.prems(2) have "k \<noteq> key" and "k \<notin> set keys" by auto
  with Cons.IH [OF run] show ?case by simp
qed

lemma loop_listed:
  "distinct keys \<Longrightarrow> normalize_loop keys old new d = Inr d' \<Longrightarrow> k \<in> set keys \<Longrightarrow>
   d k = Some (StrV s) \<Longrightarrow> d' k = Some (StrV (replace s old new))"
proof (induction keys arbitrary: d)
  case Nil
  then show ?case by simp
next
  case (Cons key keys)
  from Cons.prems(2) obtain s0 where
    at: "d key = Some (StrV s0)" and
    run: "normalize_loop keys old new (d(key \<mapsto> StrV (replace s0 old new))) = Inr d'"
    by (rule loop_step_success)
  show ?case
  proof (cases "k = key")
    case True
    with Cons.prems(1) have "k \<notin> set keys" by simp
    from loop_frame [OF run this] True at Cons.prems(4) show ?thesis by simp
  next
    case False
    with Cons.prems(3) have "k \<in> set keys" by simp
    moreover from False Cons.prems(4)
    have "(d(key \<mapsto> StrV (replace s0 old new))) k = Some (StrV s)" by simp
    moreover from Cons.prems(1) have "distinct keys" by simp
    ultimately show ?thesis using Cons.IH run by blast
  qed
qed

lemma loop_total:
  "list_all (is_str_at d) keys \<Longrightarrow> \<exists>d'. normalize_loop keys old new d = Inr d'"
proof (induction keys arbitrary: d)
  case Nil
  show ?case by simp
next
  case (Cons key keys)
  from Cons.prems obtain s where at: "d key = Some (StrV s)"
    by (auto simp: is_str_at_iff)
  have "list_all (is_str_at (d(key \<mapsto> StrV (replace s old new)))) keys"
    using Cons.prems by (auto simp: list_all_iff is_str_at_iff)
  from Cons.IH [OF this] show ?case
    unfolding loop_step [where d = d and key = key, OF at] .
qed

lemma loop_success_strings:
  "normalize_loop keys old new d = Inr d' \<Longrightarrow> list_all (is_str_at d) keys"
proof (induction keys arbitrary: d)
  case Nil
  show ?case by simp
next
  case (Cons key keys)
  from Cons.prems obtain s where
    at: "d key = Some (StrV s)" and
    run: "normalize_loop keys old new (d(key \<mapsto> StrV (replace s old new))) = Inr d'"
    by (rule loop_step_success)
  from Cons.IH [OF run] at show ?case
    by (auto simp: list_all_iff is_str_at_iff split: if_splits)
qed

lemma loop_noop:
  "\<forall>k \<in> set keys. \<exists>s. d k = Some (StrV s) \<and> \<not> sublist old s \<Longrightarrow>
   normalize_loop keys old new d = Inr d"
proof (induction keys)
  case Nil
  show ?case by simp
next
  case (Cons key keys)
  from Cons.prems obtain s where at: "d key = Some (StrV s)" and free: "\<not> sublist old s"
    by auto
  have same: "d(key \<mapsto> StrV (replace s old new)) = d"
    using at by (simp add: replace_no_occurrence [OF free] map_upd_triv)
  from Cons.prems have "\<forall>k \<in> set keys. \<exists>s. d k = Some (StrV s) \<and> \<not> sublist old s" by simp
  from Cons.IH [OF this] show ?case
    unfolding loop_step [where d = d and key = key, OF at] same .
qed

section \<open>Facts about the load\<close>

lemma distinct_keys_to_replace: "distinct keys_to_replace"
  by (simp add: keys_to_replace_def)

lemma BINDIR_listed: "''BINDIR'' \<in> set keys_to_replace"
  by (simp add: keys_to_replace_def)

lemma old_prefix_of_string:
  "d ''BINDIR'' = Some (StrV b) \<Longrightarrow> old_prefix d = Inr (take (length b - 4) b)"
  by (simp add: old_prefix_def getitem_def slice_to_minus4_def)

lemma old_prefix_of_bin:
  "d ''BINDIR'' = Some (StrV (p @ ''/bin'')) \<Longrightarrow> old_prefix d = Inr p"
  by (simp add: old_prefix_of_string)

lemma load_is_pass:
  "old_prefix d = Inr old \<Longrightarrow> load_and_normalize d sp = normalize_pass old sp d"
  by (simp add: load_and_normalize_def)

lemma load_success:
  assumes "load_and_normalize d sp = Inr d'"
  obtains old where "old_prefix d = Inr old" and "normalize_pass old sp d = Inr d'"
  using assms by (auto simp: load_and_normalize_def split: sum.splits)

lemma pass_total:
  "listed_strings d \<Longrightarrow> \<exists>d'. normalize_pass old new d = Inr d'"
  unfolding normalize_pass_def listed_strings_def by (rule loop_total)

lemma pass_frame:
  "normalize_pass old new d = Inr d' \<Longrightarrow> k \<notin> set keys_to_replace \<Longrightarrow> d' k = d k"
  unfolding normalize_pass_def by (rule loop_frame)

lemma pass_listed:
  "normalize_pass old new d = Inr d' \<Longrightarrow> k \<in> set keys_to_replace \<Longrightarrow>
   d k = Some (StrV s) \<Longrightarrow> d' k = Some (StrV (replace s old new))"
  unfolding normalize_pass_def by (rule loop_listed [OF distinct_keys_to_replace])

lemma pass_success_strings:
  "normalize_pass old new d = Inr d' \<Longrightarrow> listed_strings d"
  unfolding normalize_pass_def listed_strings_def by (rule loop_success_strings)

lemma pass_listed_value:
  assumes "normalize_pass old new d = Inr d'" and "k \<in> set keys_to_replace"
  obtains s where "d k = Some (StrV s)" and "d' k = Some (StrV (replace s old new))"
proof -
  from pass_success_strings [OF assms(1)] assms(2) have "is_str_at d k"
    by (simp add: listed_strings_def list_all_iff)
  then obtain s where "d k = Some (StrV s)" by (auto simp: is_str_at_iff)
  with that pass_listed [OF assms] show thesis by blast
qed

section \<open>Facts about the scenario mapping\<close>

lemma scenario_listed_strings: "listed_strings scenario_vars"
  by (simp add: listed_strings_def is_str_at_def scenario_vars_def keys_to_replace_def)

lemma scenario_old_prefix: "old_prefix scenario_vars = Inr ''/opt/app''"
  by (simp add: old_prefix_def getitem_def slice_to_minus4_def scenario_vars_def)

lemma scenario_load_total: "\<exists>d'. load_and_normalize scenario_vars sp = Inr d'"
  using pass_total [OF scenario_listed_strings] by (simp add: load_is_pass [OF scenario_old_prefix])

lemma scenario_pass_query:
  assumes "k \<in> set keys_to_replace" and "scenario_vars k = Some (StrV s)"
  shows "query (normalize_pass old new scenario_vars) k = Inr (StrV (replace s old new))"
proof -
  from pass_total [OF scenario_listed_strings] obtain d'
    where run: "normalize_pass old new scenario_vars = Inr d'" by blast
  from pass_listed [OF run assms] show ?thesis by (simp add: run query_def getitem_def)
qed

lemma scenario_load_query:
  assumes "k \<in> set keys_to_replace" and "scenario_vars k = Some (StrV s)"
  shows "query (load_and_normalize scenario_vars sp) k = Inr (StrV (replace s ''/opt/app'' sp))"
  using scenario_pass_query [OF assms] by (simp add: load_is_pass [OF scenario_old_prefix])


section \<open>The rewrite of the listed entries\<close>

text \<open>
  C1. On a mapping whose listed keys all hold strings the load succeeds, and under every
  listed key it stores the old value with the old prefix replaced by the runtime prefix.
  The replacement is of every occurrence, wherever it stands: whenever the old value is cut
  by segments at its occurrences of the old prefix, the stored value is the same segments
  with the runtime prefix between them.  With two occurrences both are rewritten.
\<close>

theorem listed_value_replaced_everywhere:
  assumes "listed_strings d" and "old_prefix d = Inr old"
    and "key \<in> set keys_to_replace" and "d key = Some (StrV v)"
  shows "\<exists>d'. load_and_normalize d sys_prefix = Inr d' \<and>
           d' key = Some (StrV (replace v old sys_prefix)) \<and>
           (old \<noteq> [] \<and> separated old segs \<and> v = join old segs \<longrightarrow>
              d' key = Some (StrV (join sys_prefix segs)))"
proof -
  from pass_total [OF assms(1)] obtain d'
    where run: "normalize_pass old sys_prefix d = Inr d'" by blast
  from pass_listed [OF run assms(3,4)]
  have val: "d' key = Some (StrV (replace v old sys_prefix))" .
  have "replace v old sys_prefix = join sys_prefix segs"
    if "old \<noteq> []" and "separated old segs" and "v = join old segs"
    using that by (simp add: replace_def replace_from_join)
  with val run show ?thesis by (auto simp: load_is_pass [OF assms(2)])
qed

theorem listed_value_replaced_everywhere_witness:
  "\<exists>d'. load_and_normalize scenario_vars ''/usr/local'' = Inr d' \<and>
     d' ''INCLUDEPY'' = Some (StrV ''/usr/local/include -I/usr/local/include2'') \<and>
     d' ''MANDIR'' = Some (StrV ''/OPT/APP/man:/usr/local/man'')"
proof -
  have k1: "''INCLUDEPY'' \<in> set keys_to_replace" and k2: "''MANDIR'' \<in> set keys_to_replace"
    by (simp_all add: keys_to_replace_def)
  have v1: "scenario_vars ''INCLUDEPY'' = Some (StrV ''/opt/app/include -I/opt/app/include2'')"
    and v2: "scenario_vars ''MANDIR'' = Some (StrV ''/OPT/APP/man:/opt/app/man'')"
    by (simp_all add: scenario_vars_def)
  have cut1: "''/opt/app'' \<noteq> [] \<and>
      separated ''/opt/app'' ['''', ''/include -I'', ''/include2''] \<and>
      ''/opt/app/include -I/opt/app/include2'' =
        join ''/opt/app'' ['''', ''/include -I'', ''/include2'']"
    by (simp add: sublist_code(3))
  have cut2: "''/opt/app'' \<noteq> [] \<and>
      separated ''/opt/app'' [''/OPT/APP/man:'', ''/man''] \<and>
      ''/OPT/APP/man:/opt/app/man'' = join ''/opt/app'' [''/OPT/APP/man:'', ''/man'']"
    by (simp add: sublist_code(3))
  from listed_value_replaced_everywhere [OF scenario_listed_strings scenario_old_prefix k1 v1,
      of "''/usr/local''" "['''', ''/include -I'', ''/include2'']"] cut1
  obtain d' where run: "load_and_normalize scenario_vars ''/usr/local'' = Inr d'"
    and r1: "d' ''INCLUDEPY'' =
      Some (StrV (join ''/usr/local'' ['''', ''/include -I'', ''/include2'']))"
    by blast
  from listed_value_replaced_everywhere [OF scenario_listed_strings scenario_old_prefix k2 v2,
      of "''/usr/local''" "[''/OPT/APP/man:'', ''/man'']"] cut2
  obtain d2 where run2: "load_and_normalize scenario_vars ''/usr/local'' = Inr d2"
    and r2: "d2 ''MANDIR'' = Some (StrV (join ''/usr/local'' [''/OPT/APP/man:'', ''/man'']))"
    by blast
  from run run2 have "d2 = d'" by simp
  with run r1 r2 show ?thesis by simp
qed

text \<open>
  C2. A key outside the rewrite list has the same entry after the load as before it: the
  same value, or no value when it had none.
\<close>

theorem unlisted_entries_unchanged:
  assumes "load_and_normalize d sys_prefix = Inr d'" and "key \<notin> set keys_to_replace"
  shows "d' key = d key"
proof -
  from assms(1) obtain old where "normalize_pass old sys_prefix d = Inr d'"
    by (rule load_success)
  from pass_frame [OF this assms(2)] show ?thesis .
qed

theorem unlisted_entries_unchanged_witness:
  "\<exists>d'. load_and_normalize scenario_vars ''/usr/local'' = Inr d' \<and>
     d' ''CC'' = Some (StrV ''gcc'') \<and> d' ''SIZEOF_INT'' = Some (IntV 4)"
proof -
  from scenario_load_total obtain d'
    where run: "load_and_normalize scenario_vars ''/usr/local'' = Inr d'" by blast
  have out: "''CC'' \<notin> set keys_to_replace" "''SIZEOF_INT'' \<notin> set keys_to_replace"
    by (simp_all add: keys_to_replace_def)
  from unlisted_entries_unchanged [OF run out(1)] unlisted_entries_unchanged [OF run out(2)]
  have "d' ''CC'' = Some (StrV ''gcc'') \<and> d' ''SIZEOF_INT'' = Some (IntV 4)"
    by (simp add: scenario_vars_def)
  with run show ?thesis by blast
qed

text \<open>
  C3. The old prefix is the string value of \<^verbatim>\<open>BINDIR\<close> without its last four characters;
  when that value is \<open>p\<close> followed by \<^verbatim>\<open>/bin\<close> the old prefix is \<open>p\<close>.  A listed value
  that is \<open>p\<close> followed by a rest without further occurrence of \<open>p\<close> becomes the runtime
  prefix followed by that rest.
\<close>

theorem old_prefix_is_reference_without_bin:
  assumes "d ''BINDIR'' = Some (StrV b)"
  shows "old_prefix d = Inr (take (length b - 4) b) \<and>
         (b = p @ ''/bin'' \<longrightarrow> old_prefix d = Inr p) \<and>
         (b = p @ ''/bin'' \<and> p \<noteq> [] \<and> listed_strings d \<and> key \<in> set keys_to_replace \<and>
          d key = Some (StrV (p @ rest)) \<and> \<not> sublist p rest \<longrightarrow>
            (\<exists>d'. load_and_normalize d sys_prefix = Inr d' \<and>
                   d' key = Some (StrV (sys_prefix @ rest))))"
proof -
  have general: "old_prefix d = Inr (take (length b - 4) b)"
    using assms by (rule old_prefix_of_string)
  have stripped: "old_prefix d = Inr p" if "b = p @ ''/bin''"
    using general that by simp
  have moved: "\<exists>d'. load_and_normalize d sys_prefix = Inr d' \<and>
                 d' key = Some (StrV (sys_prefix @ rest))"
    if b: "b = p @ ''/bin''" and p: "p \<noteq> []" and ls: "listed_strings d"
      and k: "key \<in> set keys_to_replace" and v: "d key = Some (StrV (p @ rest))"
      and free: "\<not> sublist p rest"
  proof -
    from pass_total [OF ls] obtain d'
      where run: "normalize_pass p sys_prefix d = Inr d'" by blast
    have "replace (p @ rest) p sys_prefix = sys_prefix @ rest"
      using p by (simp add: replace_def replace_from_at_start replace_from_no_occurrence [OF free])
    with pass_listed [OF run k v] have "d' key = Some (StrV (sys_prefix @ rest))" by simp
    with run show ?thesis by (auto simp: load_is_pass [OF stripped [OF b]])
  qed
  from general stripped moved show ?thesis by blast
qed

theorem old_prefix_is_reference_without_bin_witness:
  "old_prefix scenario_vars = Inr ''/opt/app'' \<and>
   (\<exists>d'. load_and_normalize scenario_vars ''/usr/local'' = Inr d' \<and>
          d' ''LIBDEST'' = Some (StrV ''/usr/local/lib/app3.9''))"
proof -
  have b: "scenario_vars ''BINDIR'' = Some (StrV ''/opt/app/bin'')"
    by (simp add: scenario_vars_def)
  have hyp: "''/opt/app/bin'' = ''/opt/app'' @ ''/bin'' \<and> ''/opt/app'' \<noteq> [] \<and>
      listed_strings scenario_vars \<and> ''LIBDEST'' \<in> set keys_to_replace \<and>
      scenario_vars ''LIBDEST'' = Some (StrV (''/opt/app'' @ ''/lib/app3.9'')) \<and>
      \<not> sublist ''/opt/app'' ''/lib/app3.9''"
    using scenario_listed_strings
    by (simp add: keys_to_replace_def scenario_vars_def sublist_code(3))
  from old_prefix_is_reference_without_bin [where d = scenario_vars and b = "''/opt/app/bin''"
      and p = "''/opt/app''" and key = "''LIBDEST''" and rest = "''/lib/app3.9''"
      and sys_prefix = "''/usr/local''", OF b] hyp
  have "old_prefix scenario_vars = Inr ''/opt/app'' \<and>
      (\<exists>d'. load_and_normalize scenario_vars ''/usr/local'' = Inr d' \<and>
             d' ''LIBDEST'' = Some (StrV (''/usr/local'' @ ''/lib/app3.9'')))"
    by blast
  then show ?thesis by simp
qed

section \<open>Running the pass twice\<close>




section \<open>The rewrite on other mappings\<close>

text \<open>
  The loop does not depend on the values of the embedded table.  On any mapping whose listed
  keys hold strings, a listed value without occurrence of the old prefix is left unchanged,
  and when the old prefix and the runtime prefix are apart no listed value contains the old
  prefix after the load.
\<close>

lemma listed_value_unchanged_without_occurrence:
  assumes "listed_strings d" and "old_prefix d = Inr old"
    and "key \<in> set keys_to_replace" and "d key = Some (StrV v)"
  shows "\<exists>d'. load_and_normalize d sys_prefix = Inr d' \<and>
           (sublist old v \<or> d' key = Some (StrV v))"
proof -
  from pass_total [OF assms(1)] obtain d'
    where run: "normalize_pass old sys_prefix d = Inr d'" by blast
  from pass_listed [OF run assms(3,4)]
  have "d' key = Some (StrV (replace v old sys_prefix))" .
  then have "sublist old v \<or> d' key = Some (StrV v)"
    using replace_no_occurrence [of old v sys_prefix] by auto
  with run show ?thesis by (auto simp: load_is_pass [OF assms(2)])
qed

lemma no_old_prefix_left_when_apart:
  assumes "listed_strings d" and "old_prefix d = Inr old"
    and "apart old sys_prefix" and "key \<in> set keys_to_replace"
  shows "\<exists>d' w. load_and_normalize d sys_prefix = Inr d' \<and>
           d' key = Some (StrV w) \<and> \<not> sublist old w"
proof -
  from pass_total [OF assms(1)] obtain d'
    where run: "normalize_pass old sys_prefix d = Inr d'" by blast
  from pass_listed_value [OF run assms(4)] obtain s
    where "d' key = Some (StrV (replace s old sys_prefix))" by blast
  with replace_removes [OF assms(3)] run show ?thesis
    by (auto simp: load_is_pass [OF assms(2)])
qed

text \<open>
  What the values of a mapping allow beyond that is a matter of the mapping.  In the scenario
  mapping the value \<^verbatim>\<open>-I/opt/app/include\<close> holds the old prefix after its start and is
  rewritten, and with the runtime prefix \<^verbatim>\<open>/opt\<close> the value \<^verbatim>\<open>/opt/app/app/lib\<close> becomes
  \<^verbatim>\<open>/opt/app/lib\<close>, where the old prefix stands again.
\<close>

lemma unanchored_value_rewritten:
  "old_prefix scenario_vars = Inr ''/opt/app'' \<and>
   ''CONFINCLUDEPY'' \<in> set keys_to_replace \<and>
   getitem scenario_vars ''CONFINCLUDEPY'' = Inr (StrV ''-I/opt/app/include'') \<and>
   \<not> prefix ''/opt/app'' ''-I/opt/app/include'' \<and>
   query (load_and_normalize scenario_vars ''/usr/local'') ''CONFINCLUDEPY'' =
     Inr (StrV ''-I/usr/local/include'')"
proof -
  have k: "''CONFINCLUDEPY'' \<in> set keys_to_replace" by (simp add: keys_to_replace_def)
  have v: "scenario_vars ''CONFINCLUDEPY'' = Some (StrV ''-I/opt/app/include'')"
    by (simp add: scenario_vars_def)
  have "query (load_and_normalize scenario_vars ''/usr/local'') ''CONFINCLUDEPY'' =
      Inr (StrV ''-I/usr/local/include'')"
    using scenario_load_query [OF k v, of "''/usr/local''"] by (simp add: replace_def)
  moreover have "getitem scenario_vars ''CONFINCLUDEPY'' = Inr (StrV ''-I/opt/app/include'')"
    by (simp add: getitem_def v)
  moreover have "\<not> prefix ''/opt/app'' ''-I/opt/app/include''" by simp
  ultimately show ?thesis using k scenario_old_prefix by blast
qed

lemma old_prefix_recreated_at_seam:
  "old_prefix scenario_vars = Inr ''/opt/app'' \<and>
   \<not> sublist ''/opt/app'' ''/opt'' \<and>
   ''LIBDIR'' \<in> set keys_to_replace \<and>
   query (load_and_normalize scenario_vars ''/opt'') ''LIBDIR'' = Inr (StrV ''/opt/app/lib'') \<and>
   sublist ''/opt/app'' ''/opt/app/lib''"
proof -
  have k: "''LIBDIR'' \<in> set keys_to_replace" by (simp add: keys_to_replace_def)
  have v: "scenario_vars ''LIBDIR'' = Some (StrV ''/opt/app/app/lib'')"
    by (simp add: scenario_vars_def)
  have "query (load_and_normalize scenario_vars ''/opt'') ''LIBDIR'' = Inr (StrV ''/opt/app/lib'')"
    using scenario_load_query [OF k v, of "''/opt''"] by (simp add: replace_def)
  moreover have "\<not> sublist ''/opt/app'' ''/opt'' \<and> sublist ''/opt/app'' ''/opt/app/lib''"
    by (simp add: sublist_code(3))
  ultimately show ?thesis using k scenario_old_prefix by blast
qed

section \<open>Failure of the load\<close>

text \<open>
  C7. Without an entry for \<^verbatim>\<open>BINDIR\<close> the old prefix cannot be derived and the load fails
  with the key error of that lookup; no mapping results and the loop does not run.  A key not
  found by a later query is another matter: it is the error of a subscription on a mapping
  that the load did return, which therefore had its \<^verbatim>\<open>BINDIR\<close> entry, the key is not one
  of the listed keys, and the error differs from the one of the failed load.
\<close>

theorem missing_reference_key_fails_load:
  "(d0 ''BINDIR'' = None \<longrightarrow>
      old_prefix d0 = Inl (KeyError ''BINDIR'') \<and>
      load_and_normalize d0 sys_prefix = Inl (KeyError ''BINDIR'')) \<and>
   (load_and_normalize d sys_prefix = Inr d' \<and> d' k = None \<longrightarrow>
      query (load_and_normalize d sys_prefix) k = Inl (KeyError k) \<and>
      d ''BINDIR'' \<noteq> None \<and> d' ''BINDIR'' \<noteq> None \<and>
      k \<notin> set keys_to_replace \<and> KeyError k \<noteq> KeyError ''BINDIR'')"
proof -
  have absent: "old_prefix d0 = Inl (KeyError ''BINDIR'') \<and>
      load_and_normalize d0 sys_prefix = Inl (KeyError ''BINDIR'')"
    if "d0 ''BINDIR'' = None"
    using that by (simp add: load_and_normalize_def old_prefix_def getitem_def)
  have later: "query (load_and_normalize d sys_prefix) k = Inl (KeyError k) \<and>
      d ''BINDIR'' \<noteq> None \<and> d' ''BINDIR'' \<noteq> None \<and>
      k \<notin> set keys_to_replace \<and> KeyError k \<noteq> KeyError ''BINDIR''"
    if run: "load_and_normalize d sys_prefix = Inr d'" and none: "d' k = None"
  proof -
    from run obtain old where pass: "normalize_pass old sys_prefix d = Inr d'"
      by (rule load_success)
    have listed: "d k' \<noteq> None \<and> d' k' \<noteq> None" if "k' \<in> set keys_to_replace" for k'
      using pass_listed_value [OF pass that] by auto
    from listed [OF BINDIR_listed] listed [of k] none run show ?thesis
      by (auto simp: query_def getitem_def)
  qed
  from absent later show ?thesis by blast
qed

theorem missing_reference_key_fails_load_witness:
  "load_and_normalize Map.empty ''/usr/local'' = Inl (KeyError ''BINDIR'') \<and>
   query (load_and_normalize scenario_vars ''/usr/local'') ''NO_SUCH_KEY'' =
     Inl (KeyError ''NO_SUCH_KEY'')"
proof -
  from scenario_load_total obtain d'
    where run: "load_and_normalize scenario_vars ''/usr/local'' = Inr d'" by blast
  have out: "''NO_SUCH_KEY'' \<notin> set keys_to_replace" by (simp add: keys_to_replace_def)
  from run obtain old where pass: "normalize_pass old ''/usr/local'' scenario_vars = Inr d'"
    by (rule load_success)
  from pass_frame [OF pass out] have none: "d' ''NO_SUCH_KEY'' = None"
    by (simp add: scenario_vars_def keys_to_replace_def)
  from missing_reference_key_fails_load [of Map.empty "''/usr/local''" scenario_vars d' "''NO_SUCH_KEY''"]
    run none
  show ?thesis by simp
qed

section \<open>Facts about the embedded table\<close>

text \<open>Looking a key up in the table takes these rules only.\<close>

lemmas lookup_simps =
  fun_upd_apply list.inject list.distinct char.inject simp_thms if_True if_False
  append_Cons append_Nil

lemma table_BINDIR:
  "build_time_vars ''BINDIR'' =
     Some (StrV ''C:/buildroot/x86_64-1320-win32-seh-ucrt-rt_v11-rev0/mingw64/opt/bin'')"
  by (simp only: build_time_vars_def lookup_simps)

lemma table_BINLIBDEST:
  "build_time_vars ''BINLIBDEST'' =
     Some (StrV ''C:/buildroot/x86_64-1320-win32-seh-ucrt-rt_v11-rev0/mingw64/opt/lib/python3.9'')"
  by (simp only: build_time_vars_def lookup_simps)

lemma table_CONFINCLUDEDIR:
  "build_time_vars ''CONFINCLUDEDIR'' =
     Some (StrV ''C:/buildroot/x86_64-1320-win32-seh-ucrt-rt_v11-rev0/mingw64/opt/include'')"
  by (simp only: build_time_vars_def lookup_simps)

lemma table_CONFINCLUDEPY:
  "build_time_vars ''CONFINCLUDEPY'' =
     Some (StrV ''C:/buildroot/x86_64-1320-win32-seh-ucrt-rt_v11-rev0/mingw64/opt/include/python3.9'')"
  by (simp only: build_time_vars_def lookup_simps)

lemma table_DESTDIRS:
  "build_time_vars ''DESTDIRS'' =
     Some (StrV ''C:/buildroot/x86_64-1320-win32-seh-ucrt-rt_v11-rev0/mingw64/opt C:/buildroot/x86_64-1320-win32-seh-ucrt-rt_v11-rev0/mingw64/opt/lib C:/buildroot/x86_64-1320-win32-seh-ucrt-rt_v11-rev0/mingw64/opt/lib/python3.9 C:/buildroot/x86_64-1320-win32-seh-ucrt-rt_v11-rev0/mingw64/opt/lib/python3.9/lib-dynload'')"
  by (simp only: build_time_vars_def lookup_simps)

lemma table_DESTLIB:
  "build_time_vars ''DESTLIB'' =
     Some (StrV ''C:/buildroot/x86_64-1320-win32-seh-ucrt-rt_v11-rev0/mingw64/opt/lib/python3.9'')"
  by (simp only: build_time_vars_def lookup_simps)

lemma table_DESTSHARED:
  "build_time_vars ''DESTSHARED'' =
     Some (StrV ''C:/buildroot/x86_64-1320-win32-seh-ucrt-rt_v11-rev0/mingw64/opt/lib/python3.9/lib-dynload'')"
  by (simp only: build_time_vars_def lookup_simps)

lemma table_INCLDIRSTOMAKE:
  "build_time_vars ''INCLDIRSTOMAKE'' =
     Some (StrV ''C:/buildroot/x86_64-1320-win32-seh-ucrt-rt_v11-rev0/mingw64/opt/include C:/buildroot/x86_64-1320-win32-seh-ucrt-rt_v11-rev0/mingw64/opt/include C:/buildroot/x86_64-1320-win32-seh-ucrt-rt_v11-rev0/mingw64/opt/include/python3.9 C:/buildroot/x86_64-1320-win32-seh-ucrt-rt_v11-rev0/mingw64/opt/include/python3.9'')"
  by (simp only: build_time_vars_def lookup_simps)

lemma table_INCLUDEDIR:
  "build_time_vars ''INCLUDEDIR'' =
     Some (StrV ''C:/buildroot/x86_64-1320-win32-seh-ucrt-rt_v11-rev0/mingw64/opt/include'')"
  by (simp only: build_time_vars_def lookup_simps)

lemma table_INCLUDEPY:
  "build_time_vars ''INCLUDEPY'' =
     Some (StrV ''C:/buildroot/x86_64-1320-win32-seh-ucrt-rt_v11-rev0/mingw64/opt/include/python3.9'')"
  by (simp only: build_time_vars_def lookup_simps)

lemma table_LIBDEST:
  "build_time_vars ''LIBDEST'' =
     Some (StrV ''C:/buildroot/x86_64-1320-win32-seh-ucrt-rt_v11-rev0/mingw64/opt/lib/python3.9'')"
  by (simp only: build_time_vars_def lookup_simps)

lemma table_LIBDIR:
  "build_time_vars ''LIBDIR'' =
     Some (StrV ''C:/buildroot/x86_64-1320-win32-seh-ucrt-rt_v11-rev0/mingw64/opt/lib'')"
  by (simp only: build_time_vars_def lookup_simps)

lemma table_LIBPC:
  "build_time_vars ''LIBPC'' =
     Some (StrV ''C:/buildroot/x86_64-1320-win32-seh-ucrt-rt_v11-rev0/mingw64/opt/lib/pkgconfig'')"
  by (simp only: build_time_vars_def lookup_simps)

lemma table_LIBPL:
  "build_time_vars ''LIBPL'' =
     Some (StrV ''C:/buildroot/x86_64-1320-win32-seh-ucrt-rt_v11-rev0/mingw64/opt/lib/python3.9/config-3.9'')"
  by (simp only: build_time_vars_def lookup_simps)

lemma table_MACHDESTLIB:
  "build_time_vars ''MACHDESTLIB'' =
     Some (StrV ''C:/buildroot/x86_64-1320-win32-seh-ucrt-rt_v11-rev0/mingw64/opt/lib/python3.9'')"
  by (simp only: build_time_vars_def lookup_simps)

lemma table_MANDIR:
  "build_time_vars ''MANDIR'' =
     Some (StrV ''C:/buildroot/x86_64-1320-win32-seh-ucrt-rt_v11-rev0/mingw64/opt/share/man'')"
  by (simp only: build_time_vars_def lookup_simps)

lemma table_SCRIPTDIR:
  "build_time_vars ''SCRIPTDIR'' =
     Some (StrV ''C:/buildroot/x86_64-1320-win32-seh-ucrt-rt_v11-rev0/mingw64/opt/lib'')"
  by (simp only: build_time_vars_def lookup_simps)

lemma table_datarootdir:
  "build_time_vars ''datarootdir'' =
     Some (StrV ''C:/buildroot/x86_64-1320-win32-seh-ucrt-rt_v11-rev0/mingw64/opt/share'')"
  by (simp only: build_time_vars_def lookup_simps)

lemma table_exec_prefix:
  "build_time_vars ''exec_prefix'' =
     Some (StrV ''C:/buildroot/x86_64-1320-win32-seh-ucrt-rt_v11-rev0/mingw64/opt'')"
  by (simp only: build_time_vars_def lookup_simps)

lemma table_TZPATH:
  "build_time_vars ''TZPATH'' =
     Some (StrV ''/usr/share/zoneinfo:/usr/lib/zoneinfo:/usr/share/lib/zoneinfo:/etc/zoneinfo'')"
  by (simp only: build_time_vars_def lookup_simps)

lemma table_prefix:
  "build_time_vars ''prefix'' =
     Some (StrV ''C:/buildroot/x86_64-1320-win32-seh-ucrt-rt_v11-rev0/mingw64/opt'')"
  by (simp only: build_time_vars_def lookup_simps)

lemma table_prefix_b2h:
  "build_time_vars ''prefix_b2h'' =
     Some (StrV ''C:/buildroot/x86_64-1320-win32-seh-ucrt-rt_v11-rev0/mingw64/opt'')"
  by (simp only: build_time_vars_def lookup_simps)

lemmas table_listed =
  table_BINDIR table_BINLIBDEST table_CONFINCLUDEDIR table_CONFINCLUDEPY table_DESTDIRS
  table_DESTLIB table_DESTSHARED table_INCLDIRSTOMAKE table_INCLUDEDIR table_INCLUDEPY
  table_LIBDEST table_LIBDIR table_LIBPC table_LIBPL table_MACHDESTLIB table_MANDIR
  table_SCRIPTDIR table_datarootdir table_exec_prefix table_TZPATH

lemma embedded_listed_strings: "listed_strings build_time_vars"
  by (simp add: listed_strings_def keys_to_replace_def is_str_at_def table_listed)

lemma embedded_old_prefix:
  "old_prefix build_time_vars =
     Inr ''C:/buildroot/x86_64-1320-win32-seh-ucrt-rt_v11-rev0/mingw64/opt''"
proof -
  have "build_time_vars ''BINDIR'' =
      Some (StrV (''C:/buildroot/x86_64-1320-win32-seh-ucrt-rt_v11-rev0/mingw64/opt'' @ ''/bin''))"
    by (simp add: table_BINDIR)
  then show ?thesis by (rule old_prefix_of_bin)
qed

text \<open>
  In the embedded table the old prefix stands at the start of every listed value except
  that of \<^verbatim>\<open>TZPATH\<close>, where it does not occur at all.
\<close>

lemma embedded_listed_values_anchored:
  "\<forall>k \<in> set keys_to_replace. \<exists>v. build_time_vars k = Some (StrV v) \<and>
     (if k = ''TZPATH''
      then \<not> sublist ''C:/buildroot/x86_64-1320-win32-seh-ucrt-rt_v11-rev0/mingw64/opt'' v
      else prefix ''C:/buildroot/x86_64-1320-win32-seh-ucrt-rt_v11-rev0/mingw64/opt'' v)"
  by (simp add: keys_to_replace_def table_listed sublist_code(3) prefix_Cons_same prefix_Cons_diff
      del: Cons_prefix_Cons)

text \<open>
  Every listed value of the embedded table, cut at its occurrences of the old prefix, is free
  of seams.  So for a runtime prefix that does not contain the old prefix, no listed value
  contains the old prefix after the load, and a second pass changes nothing.
\<close>

lemma embedded_value_clean:
  assumes nsub: "\<not> sublist ''C:/buildroot/x86_64-1320-win32-seh-ucrt-rt_v11-rev0/mingw64/opt'' sp"
  shows "\<forall>k \<in> set keys_to_replace. \<exists>v. build_time_vars k = Some (StrV v) \<and>
           \<not> sublist ''C:/buildroot/x86_64-1320-win32-seh-ucrt-rt_v11-rev0/mingw64/opt''
              (replace v ''C:/buildroot/x86_64-1320-win32-seh-ucrt-rt_v11-rev0/mingw64/opt'' sp)"
proof -
  let ?P = "''C:/buildroot/x86_64-1320-win32-seh-ucrt-rt_v11-rev0/mingw64/opt''"
  note clean = replace_seam_free [OF nsub]
  note ev = overlaps_end_Cons sublist_code(3) prefix_Cons_same prefix_Cons_diff
  have c1: "\<not> sublist ?P (replace
      ''C:/buildroot/x86_64-1320-win32-seh-ucrt-rt_v11-rev0/mingw64/opt/bin''
      ?P sp)"
    by (rule clean [where segs = "['''', ''/bin'']"]) (simp_all add: ev del: Cons_prefix_Cons)
  have c2: "\<not> sublist ?P (replace
      ''C:/buildroot/x86_64-1320-win32-seh-ucrt-rt_v11-rev0/mingw64/opt/lib/python3.9''
      ?P sp)"
    by (rule clean [where segs = "['''', ''/lib/python3.9'']"]) (simp_all add: ev del: Cons_prefix_Cons)
  have c3: "\<not> sublist ?P (replace
      ''C:/buildroot/x86_64-1320-win32-seh-ucrt-rt_v11-rev0/mingw64/opt/include''
      ?P sp)"
    by (rule clean [where segs = "['''', ''/include'']"]) (simp_all add: ev del: Cons_prefix_Cons)
  have c4: "\<not> sublist ?P (replace
      ''C:/buildroot/x86_64-1320-win32-seh-ucrt-rt_v11-rev0/mingw64/opt/include/python3.9''
      ?P sp)"
    by (rule clean [where segs = "['''', ''/include/python3.9'']"]) (simp_all add: ev del: Cons_prefix_Cons)
  have c5: "\<not> sublist ?P (replace
      ''C:/buildroot/x86_64-1320-win32-seh-ucrt-rt_v11-rev0/mingw64/opt C:/buildroot/x86_64-1320-win32-seh-ucrt-rt_v11-rev0/mingw64/opt/lib C:/buildroot/x86_64-1320-win32-seh-ucrt-rt_v11-rev0/mingw64/opt/lib/python3.9 C:/buildroot/x86_64-1320-win32-seh-ucrt-rt_v11-rev0/mingw64/opt/lib/python3.9/lib-dynload''
      ?P sp)"
    by (rule clean [where segs = "['''',
        '' '',
        ''/lib '',
        ''/lib/python3.9 '',
        ''/lib/python3.9/lib-dynload'']"]) (simp_all add: ev del: Cons_prefix_Cons)
  have c6: "\<not> sublist ?P (replace
      ''C:/buildroot/x86_64-1320-win32-seh-ucrt-rt_v11-rev0/mingw64/opt/lib/python3.9/lib-dynload''
      ?P sp)"
    by (rule clean [where segs = "['''', ''/lib/python3.9/lib-dynload'']"]) (simp_all add: ev del: Cons_prefix_Cons)
  have c7: "\<not> sublist ?P (replace
      ''C:/buildroot/x86_64-1320-win32-seh-ucrt-rt_v11-rev0/mingw64/opt/include C:/buildroot/x86_64-1320-win32-seh-ucrt-rt_v11-rev0/mingw64/opt/include C:/buildroot/x86_64-1320-win32-seh-ucrt-rt_v11-rev0/mingw64/opt/include/python3.9 C:/buildroot/x86_64-1320-win32-seh-ucrt-rt_v11-rev0/mingw64/opt/include/python3.9''
      ?P sp)"
    by (rule clean [where segs = "['''',
        ''/include '',
        ''/include '',
        ''/include/python3.9 '',
        ''/include/python3.9'']"]) (simp_all add: ev del: Cons_prefix_Cons)
  have c8: "\<not> sublist ?P (replace
      ''C:/buildroot/x86_64-1320-win32-seh-ucrt-rt_v11-rev0/mingw64/opt/lib''
      ?P sp)"
    by (rule clean [where segs = "['''', ''/lib'']"]) (simp_all add: ev del: Cons_prefix_Cons)
  have c9: "\<not> sublist ?P (replace
      ''C:/buildroot/x86_64-1320-win32-seh-ucrt-rt_v11-rev0/mingw64/opt/lib/pkgconfig''
      ?P sp)"
    by (rule clean [where segs = "['''', ''/lib/pkgconfig'']"]) (simp_all add: ev del: Cons_prefix_Cons)
  have c10: "\<not> sublist ?P (replace
      ''C:/buildroot/x86_64-1320-win32-seh-ucrt-rt_v11-rev0/mingw64/opt/lib/python3.9/config-3.9''
      ?P sp)"
    by (rule clean [where segs = "['''', ''/lib/python3.9/config-3.9'']"]) (simp_all add: ev del: Cons_prefix_Cons)
  have c11: "\<not> sublist ?P (replace
      ''C:/buildroot/x86_64-1320-win32-seh-ucrt-rt_v11-rev0/mingw64/opt/share/man''
      ?P sp)"
    by (rule clean [where segs = "['''', ''/share/man'']"]) (simp_all add: ev del: Cons_prefix_Cons)
  have c12: "\<not> sublist ?P (replace
      ''C:/buildroot/x86_64-1320-win32-seh-ucrt-rt_v11-rev0/mingw64/opt/share''
      ?P sp)"
    by (rule clean [where segs = "['''', ''/share'']"]) (simp_all add: ev del: Cons_prefix_Cons)
  have c13: "\<not> sublist ?P (replace
      ''C:/buildroot/x86_64-1320-win32-seh-ucrt-rt_v11-rev0/mingw64/opt''
      ?P sp)"
    by (rule clean [where segs = "['''', '''']"]) (simp_all add: ev del: Cons_prefix_Cons)
  have c14: "\<not> sublist ?P (replace
      ''/usr/share/zoneinfo:/usr/lib/zoneinfo:/usr/share/lib/zoneinfo:/etc/zoneinfo''
      ?P sp)"
    by (rule clean [where segs = "[''/usr/share/zoneinfo:/usr/lib/zoneinfo:/usr/share/lib/zoneinfo:/etc/zoneinfo'']"]) (simp_all add: ev del: Cons_prefix_Cons)
  show ?thesis
    by (simp add: keys_to_replace_def table_listed
        c1 c2 c3 c4 c5 c6 c7 c8 c9 c10 c11 c12 c13 c14)
qed

lemma embedded_pass_idempotent:
  assumes "\<not> sublist ''C:/buildroot/x86_64-1320-win32-seh-ucrt-rt_v11-rev0/mingw64/opt'' sp"
  shows "normalize_twice ''C:/buildroot/x86_64-1320-win32-seh-ucrt-rt_v11-rev0/mingw64/opt'' sp
           build_time_vars =
         normalize_pass ''C:/buildroot/x86_64-1320-win32-seh-ucrt-rt_v11-rev0/mingw64/opt'' sp
           build_time_vars"
proof -
  let ?P = "''C:/buildroot/x86_64-1320-win32-seh-ucrt-rt_v11-rev0/mingw64/opt''"
  from pass_total [OF embedded_listed_strings] obtain d'
    where run: "normalize_pass ?P sp build_time_vars = Inr d'" by blast
  have "\<exists>w. d' k = Some (StrV w) \<and> \<not> sublist ?P w" if k: "k \<in> set keys_to_replace" for k
  proof -
    from embedded_value_clean [OF assms] k obtain v
      where v: "build_time_vars k = Some (StrV v)" and c: "\<not> sublist ?P (replace v ?P sp)"
      by blast
    from pass_listed [OF run k v] c show ?thesis by simp
  qed
  then have "normalize_loop keys_to_replace ?P sp d' = Inr d'"
    by (intro loop_noop) blast
  with run show ?thesis by (simp add: normalize_twice_def normalize_pass_def)
qed

section \<open>The load of the embedded table\<close>

text \<open>
  C8. The rewrite list has 20 keys.  Each of them is present in the embedded table with a
  string value, so for every runtime prefix the load of the table returns a mapping: no
  lookup and no method call of the pass raises.
\<close>

theorem embedded_listed_keys_are_strings:
  "length keys_to_replace = 20 \<and>
   (\<forall>k \<in> set keys_to_replace. \<exists>s. build_time_vars k = Some (StrV s)) \<and>
   (\<exists>d'. load_and_normalize build_time_vars sys_prefix = Inr d')"
proof -
  have "length keys_to_replace = 20" by (simp add: keys_to_replace_def)
  moreover have "\<forall>k \<in> set keys_to_replace. \<exists>s. build_time_vars k = Some (StrV s)"
    using embedded_listed_strings by (simp add: listed_strings_def list_all_iff is_str_at_iff)
  moreover have "\<exists>d'. load_and_normalize build_time_vars sys_prefix = Inr d'"
    using pass_total [OF embedded_listed_strings]
    by (simp add: load_is_pass [OF embedded_old_prefix])
  ultimately show ?thesis by blast
qed

theorem embedded_listed_keys_are_strings_witness:
  "''TZPATH'' \<in> set keys_to_replace \<and> (\<exists>s. build_time_vars ''TZPATH'' = Some (StrV s))"
proof -
  have k: "''TZPATH'' \<in> set keys_to_replace" by (simp add: keys_to_replace_def)
  with embedded_listed_keys_are_strings [of "''D:/python39''"] show ?thesis by blast
qed

text \<open>
  C9. The keys \<^verbatim>\<open>prefix\<close> and \<^verbatim>\<open>prefix_b2h\<close> are not in the rewrite list and
  \<^verbatim>\<open>exec_prefix\<close> is.  After the load of the embedded table the first two still hold the
  build-time path, which is the old prefix itself, and \<^verbatim>\<open>exec_prefix\<close> holds the runtime
  prefix.
\<close>

theorem prefix_keeps_build_path:
  "''prefix'' \<notin> set keys_to_replace \<and> ''prefix_b2h'' \<notin> set keys_to_replace \<and>
   ''exec_prefix'' \<in> set keys_to_replace \<and>
   old_prefix build_time_vars =
     Inr ''C:/buildroot/x86_64-1320-win32-seh-ucrt-rt_v11-rev0/mingw64/opt'' \<and>
   (\<exists>d'. load_and_normalize build_time_vars sys_prefix = Inr d' \<and>
      d' ''prefix'' =
        Some (StrV ''C:/buildroot/x86_64-1320-win32-seh-ucrt-rt_v11-rev0/mingw64/opt'') \<and>
      d' ''prefix_b2h'' =
        Some (StrV ''C:/buildroot/x86_64-1320-win32-seh-ucrt-rt_v11-rev0/mingw64/opt'') \<and>
      d' ''exec_prefix'' = Some (StrV sys_prefix))"
proof -
  let ?P = "''C:/buildroot/x86_64-1320-win32-seh-ucrt-rt_v11-rev0/mingw64/opt''"
  have out: "''prefix'' \<notin> set keys_to_replace" "''prefix_b2h'' \<notin> set keys_to_replace"
    and inl: "''exec_prefix'' \<in> set keys_to_replace"
    by (simp_all add: keys_to_replace_def)
  from pass_total [OF embedded_listed_strings] obtain d'
    where run: "normalize_pass ?P sys_prefix build_time_vars = Inr d'" by blast
  have load: "load_and_normalize build_time_vars sys_prefix = Inr d'"
    using run by (simp add: load_is_pass [OF embedded_old_prefix])
  have p1: "d' ''prefix'' = Some (StrV ?P)"
    using pass_frame [OF run out(1)] by (simp add: table_prefix)
  have p2: "d' ''prefix_b2h'' = Some (StrV ?P)"
    using pass_frame [OF run out(2)] by (simp add: table_prefix_b2h)
  have "replace ?P ?P sys_prefix = sys_prefix" by (rule replace_whole) simp
  with pass_listed [OF run inl table_exec_prefix]
  have p3: "d' ''exec_prefix'' = Some (StrV sys_prefix)" by simp
  from out inl embedded_old_prefix load p1 p2 p3 show ?thesis by blast
qed

text \<open>
  C10. The \<^verbatim>\<open>BINDIR\<close> value of the embedded table ends with \<^verbatim>\<open>/bin\<close> and is longer than
  four characters; the old prefix derived from it is not empty, and the value is the old
  prefix followed by \<^verbatim>\<open>/bin\<close>.
\<close>

theorem embedded_bindir_ends_with_bin:
  "build_time_vars ''BINDIR'' =
     Some (StrV ''C:/buildroot/x86_64-1320-win32-seh-ucrt-rt_v11-rev0/mingw64/opt/bin'') \<and>
   suffix ''/bin'' ''C:/buildroot/x86_64-1320-win32-seh-ucrt-rt_v11-rev0/mingw64/opt/bin'' \<and>
   4 < length ''C:/buildroot/x86_64-1320-win32-seh-ucrt-rt_v11-rev0/mingw64/opt/bin'' \<and>
   old_prefix build_time_vars =
     Inr ''C:/buildroot/x86_64-1320-win32-seh-ucrt-rt_v11-rev0/mingw64/opt'' \<and>
   ''C:/buildroot/x86_64-1320-win32-seh-ucrt-rt_v11-rev0/mingw64/opt'' \<noteq> [] \<and>
   ''C:/buildroot/x86_64-1320-win32-seh-ucrt-rt_v11-rev0/mingw64/opt/bin'' =
     ''C:/buildroot/x86_64-1320-win32-seh-ucrt-rt_v11-rev0/mingw64/opt'' @ ''/bin''"
proof -
  let ?P = "''C:/buildroot/x86_64-1320-win32-seh-ucrt-rt_v11-rev0/mingw64/opt''"
  let ?B = "''C:/buildroot/x86_64-1320-win32-seh-ucrt-rt_v11-rev0/mingw64/opt/bin''"
  have split: "?B = ?P @ ''/bin''" by simp
  have "suffix ''/bin'' (?P @ ''/bin'')" by (rule suffix_appendI) simp
  then have ends: "suffix ''/bin'' ?B" by simp
  have long: "4 < length ?B" by simp
  have "?P \<noteq> []" by simp
  with table_BINDIR ends long embedded_old_prefix split show ?thesis by blast
qed

section \<open>The listed values of the embedded table after the load\<close>

text \<open>
  C5. The embedded table is loaded for every runtime prefix, and every listed key then holds
  its table value with the old prefix replaced by the runtime prefix.  That value no longer
  contains the old prefix, unless the runtime prefix itself contains the old prefix.
\<close>

theorem embedded_values_lose_old_prefix:
  "old_prefix build_time_vars =
     Inr ''C:/buildroot/x86_64-1320-win32-seh-ucrt-rt_v11-rev0/mingw64/opt'' \<and>
   (\<exists>d'. load_and_normalize build_time_vars sys_prefix = Inr d' \<and>
      (\<forall>k \<in> set keys_to_replace. \<exists>v. build_time_vars k = Some (StrV v) \<and>
         d' k = Some (StrV (replace v
           ''C:/buildroot/x86_64-1320-win32-seh-ucrt-rt_v11-rev0/mingw64/opt'' sys_prefix)) \<and>
         (sublist ''C:/buildroot/x86_64-1320-win32-seh-ucrt-rt_v11-rev0/mingw64/opt'' sys_prefix \<or>
          \<not> sublist ''C:/buildroot/x86_64-1320-win32-seh-ucrt-rt_v11-rev0/mingw64/opt''
             (replace v ''C:/buildroot/x86_64-1320-win32-seh-ucrt-rt_v11-rev0/mingw64/opt''
                sys_prefix))))"
proof -
  let ?P = "''C:/buildroot/x86_64-1320-win32-seh-ucrt-rt_v11-rev0/mingw64/opt''"
  from pass_total [OF embedded_listed_strings] obtain d'
    where run: "normalize_pass ?P sys_prefix build_time_vars = Inr d'" by blast
  have load: "load_and_normalize build_time_vars sys_prefix = Inr d'"
    using run by (simp add: load_is_pass [OF embedded_old_prefix])
  have each: "\<exists>v. build_time_vars k = Some (StrV v) \<and>
      d' k = Some (StrV (replace v ?P sys_prefix)) \<and>
      (sublist ?P sys_prefix \<or> \<not> sublist ?P (replace v ?P sys_prefix))"
    if k: "k \<in> set keys_to_replace" for k
  proof -
    from pass_listed_value [OF run k] obtain v
      where v: "build_time_vars k = Some (StrV v)"
        and after: "d' k = Some (StrV (replace v ?P sys_prefix))" by blast
    have "\<not> sublist ?P (replace v ?P sys_prefix)" if free: "\<not> sublist ?P sys_prefix"
    proof -
      from embedded_value_clean [OF free] k obtain v'
        where "build_time_vars k = Some (StrV v')"
          and "\<not> sublist ?P (replace v' ?P sys_prefix)" by blast
      with v show ?thesis by simp
    qed
    with v after show ?thesis by blast
  qed
  from embedded_old_prefix load each show ?thesis by blast
qed

theorem embedded_values_lose_old_prefix_witness:
  "\<exists>d'. load_and_normalize build_time_vars ''/opt'' = Inr d' \<and>
     d' ''LIBDIR'' = Some (StrV ''/opt/lib'') \<and>
     \<not> sublist ''C:/buildroot/x86_64-1320-win32-seh-ucrt-rt_v11-rev0/mingw64/opt'' ''/opt/lib''"
proof -
  let ?P = "''C:/buildroot/x86_64-1320-win32-seh-ucrt-rt_v11-rev0/mingw64/opt''"
  have k: "''LIBDIR'' \<in> set keys_to_replace" by (simp add: keys_to_replace_def)
  have free: "\<not> sublist ?P ''/opt''"
    by (simp add: sublist_code(3) prefix_Cons_same prefix_Cons_diff del: Cons_prefix_Cons)
  have "replace (?P @ ''/lib'') ?P ''/opt'' = ''/opt'' @ replace_from ?P ''/opt'' ''/lib''"
    by (simp only: replace_def replace_from_at_start) simp
  moreover have "replace_from ?P ''/opt'' ''/lib'' = ''/lib''"
    by (rule replace_from_no_occurrence)
      (simp add: sublist_code(3) prefix_Cons_same prefix_Cons_diff del: Cons_prefix_Cons)
  ultimately have moved: "replace
      ''C:/buildroot/x86_64-1320-win32-seh-ucrt-rt_v11-rev0/mingw64/opt/lib'' ?P ''/opt'' =
      ''/opt/lib''"
    by simp
  from embedded_values_lose_old_prefix [of "''/opt''"] obtain d'
    where run: "load_and_normalize build_time_vars ''/opt'' = Inr d'"
      and each: "\<forall>k \<in> set keys_to_replace. \<exists>v. build_time_vars k = Some (StrV v) \<and>
         d' k = Some (StrV (replace v ?P ''/opt'')) \<and>
         (sublist ?P ''/opt'' \<or> \<not> sublist ?P (replace v ?P ''/opt''))"
    by blast
  from each k obtain v where "build_time_vars ''LIBDIR'' = Some (StrV v)"
    and "d' ''LIBDIR'' = Some (StrV (replace v ?P ''/opt''))"
    and "sublist ?P ''/opt'' \<or> \<not> sublist ?P (replace v ?P ''/opt'')"
    by blast
  with free moved have "d' ''LIBDIR'' = Some (StrV ''/opt/lib'') \<and> \<not> sublist ?P ''/opt/lib''"
    by (simp add: table_LIBDIR)
  with run show ?thesis by blast
qed

text \<open>
  C6. After the load of the embedded table, for every runtime prefix, each listed key either
  has a table value that starts with the old prefix, or holds its table value unchanged.
\<close>

theorem embedded_value_anchored_or_unchanged:
  "old_prefix build_time_vars =
     Inr ''C:/buildroot/x86_64-1320-win32-seh-ucrt-rt_v11-rev0/mingw64/opt'' \<and>
   (\<exists>d'. load_and_normalize build_time_vars sys_prefix = Inr d' \<and>
      (\<forall>k \<in> set keys_to_replace. \<exists>v. build_time_vars k = Some (StrV v) \<and>
         (prefix ''C:/buildroot/x86_64-1320-win32-seh-ucrt-rt_v11-rev0/mingw64/opt'' v \<or>
          d' k = Some (StrV v))))"
proof -
  let ?P = "''C:/buildroot/x86_64-1320-win32-seh-ucrt-rt_v11-rev0/mingw64/opt''"
  from pass_total [OF embedded_listed_strings] obtain d'
    where run: "normalize_pass ?P sys_prefix build_time_vars = Inr d'" by blast
  have load: "load_and_normalize build_time_vars sys_prefix = Inr d'"
    using run by (simp add: load_is_pass [OF embedded_old_prefix])
  have each: "\<exists>v. build_time_vars k = Some (StrV v) \<and> (prefix ?P v \<or> d' k = Some (StrV v))"
    if k: "k \<in> set keys_to_replace" for k
  proof -
    from embedded_listed_values_anchored k obtain v
      where v: "build_time_vars k = Some (StrV v)"
        and shape: "if k = ''TZPATH'' then \<not> sublist ?P v else prefix ?P v" by blast
    show ?thesis
    proof (cases "k = ''TZPATH''")
      case True
      with shape have "\<not> sublist ?P v" by simp
      then have "replace v ?P sys_prefix = v" by (rule replace_no_occurrence)
      with pass_listed [OF run k v] have "d' k = Some (StrV v)" by simp
      with v show ?thesis by blast
    next
      case False
      with shape have "prefix ?P v" by simp
      with v show ?thesis by blast
    qed
  qed
  from embedded_old_prefix load each show ?thesis by blast
qed

theorem embedded_value_anchored_or_unchanged_witness:
  "\<exists>d'. load_and_normalize build_time_vars ''/opt'' = Inr d' \<and>
     \<not> prefix ''C:/buildroot/x86_64-1320-win32-seh-ucrt-rt_v11-rev0/mingw64/opt''
         ''/usr/share/zoneinfo:/usr/lib/zoneinfo:/usr/share/lib/zoneinfo:/etc/zoneinfo'' \<and>
     d' ''TZPATH'' =
       Some (StrV ''/usr/share/zoneinfo:/usr/lib/zoneinfo:/usr/share/lib/zoneinfo:/etc/zoneinfo'')"
proof -
  let ?P = "''C:/buildroot/x86_64-1320-win32-seh-ucrt-rt_v11-rev0/mingw64/opt''"
  let ?tz = "''/usr/share/zoneinfo:/usr/lib/zoneinfo:/usr/share/lib/zoneinfo:/etc/zoneinfo''"
  have k: "''TZPATH'' \<in> set keys_to_replace" by (simp add: keys_to_replace_def)
  have away: "\<not> prefix ?P ?tz" by simp
  from embedded_value_anchored_or_unchanged [of "''/opt''"] obtain d'
    where run: "load_and_normalize build_time_vars ''/opt'' = Inr d'"
      and each: "\<forall>k \<in> set keys_to_replace. \<exists>v. build_time_vars k = Some (StrV v) \<and>
         (prefix ?P v \<or> d' k = Some (StrV v))"
    by blast
  from each k obtain v where tv: "build_time_vars ''TZPATH'' = Some (StrV v)"
    and alt: "prefix ?P v \<or> d' ''TZPATH'' = Some (StrV v)" by blast
  from tv have "v = ?tz" by (simp add: table_TZPATH)
  with alt away have "d' ''TZPATH'' = Some (StrV ?tz)" by blast
  with run away show ?thesis by blast
qed

end
